theory Spec2Isabelle
  imports Main "HOL-Library.Sublist"
begin

section \<open>Strings as the bot's Python code uses them\<close>

text \<open>
  A Python \<open>str\<close> is a sequence of code points. The model uses \<^typ>\<open>string\<close>, so it
  covers the texts whose code points are below 256 (ASCII and Latin-1); on these the
  functions below agree with CPython 3.11 (\<open>str.lower\<close>, \<open>str.isspace\<close>, the
  \<open>\s\<close> and \<open>\w\<close> classes of \<open>re\<close>). The few literals of the source that contain an
  emoji or a bullet are fixed output texts; they are written with that code point's
  UTF-8 bytes.
\<close>

definition lower_table :: "(char \<times> char) list" where
  "lower_table =
     zip ''ABCDEFGHIJKLMNOPQRSTUVWXYZ'' ''abcdefghijklmnopqrstuvwxyz'' @
     zip [CHR 0xC0, CHR 0xC1, CHR 0xC2, CHR 0xC3, CHR 0xC4, CHR 0xC5, CHR 0xC6, CHR 0xC7,
          CHR 0xC8, CHR 0xC9, CHR 0xCA, CHR 0xCB, CHR 0xCC, CHR 0xCD, CHR 0xCE, CHR 0xCF,
          CHR 0xD0, CHR 0xD1, CHR 0xD2, CHR 0xD3, CHR 0xD4, CHR 0xD5, CHR 0xD6,
          CHR 0xD8, CHR 0xD9, CHR 0xDA, CHR 0xDB, CHR 0xDC, CHR 0xDD, CHR 0xDE]
         [CHR 0xE0, CHR 0xE1, CHR 0xE2, CHR 0xE3, CHR 0xE4, CHR 0xE5, CHR 0xE6, CHR 0xE7,
          CHR 0xE8, CHR 0xE9, CHR 0xEA, CHR 0xEB, CHR 0xEC, CHR 0xED, CHR 0xEE, CHR 0xEF,
          CHR 0xF0, CHR 0xF1, CHR 0xF2, CHR 0xF3, CHR 0xF4, CHR 0xF5, CHR 0xF6,
          CHR 0xF8, CHR 0xF9, CHR 0xFA, CHR 0xFB, CHR 0xFC, CHR 0xFD, CHR 0xFE]"

definition lower_char :: "char \<Rightarrow> char" where
  "lower_char c = (case map_of lower_table c of Some d \<Rightarrow> d | None \<Rightarrow> c)"

definition lower_bits :: "char \<Rightarrow> char" where
  \<comment> \<open>the same function on the bits of the code point (bit 5 is the case bit), for
      evaluation\<close>
  "lower_bits c =
     (case c of Char b0 b1 b2 b3 b4 b5 b6 b7 \<Rightarrow>
        if b6 \<and> \<not> b5 \<and>
           (if b7 then \<not> (b0 \<and> b1 \<and> b2 \<and> b4)
            else (b0 \<or> b1 \<or> b2 \<or> b3 \<or> b4) \<and> \<not> (b4 \<and> b3 \<and> (b2 \<or> (b1 \<and> b0))))
        then Char b0 b1 b2 b3 b4 True b6 b7 else c)"

lemma lower_char_bits [code]: "lower_char c = lower_bits c"
proof -
  have "list_all (\<lambda>c. lower_char c = lower_bits c) Enum.enum"
    by code_simp
  then show ?thesis
    by (simp add: list_all_iff enum_UNIV)
qed

definition lower :: "string \<Rightarrow> string" where
  \<comment> \<open>\<open>s.lower()\<close>\<close>
  "lower s = map lower_char s"

definition is_space :: "char \<Rightarrow> bool" where
  \<comment> \<open>\<open>c.isspace()\<close>, also the class \<open>\s\<close>: TAB..CR, FS..US, space, NEL, NBSP\<close>
  "is_space c = (let n = (of_char c :: nat) in
     (9 \<le> n \<and> n \<le> 13) \<or> (28 \<le> n \<and> n \<le> 32) \<or> n = 133 \<or> n = 160)"

definition is_word :: "char \<Rightarrow> bool" where
  \<comment> \<open>the class \<open>\w\<close> of a \<open>str\<close> pattern: \<open>c.isalnum() or c == '_'\<close>\<close>
  "is_word c = (let n = (of_char c :: nat) in
     (48 \<le> n \<and> n \<le> 57) \<or> (65 \<le> n \<and> n \<le> 90) \<or> n = 95 \<or> (97 \<le> n \<and> n \<le> 122) \<or>
     n = 170 \<or> n = 178 \<or> n = 179 \<or> n = 181 \<or> n = 185 \<or> n = 186 \<or>
     (188 \<le> n \<and> n \<le> 190) \<or> (192 \<le> n \<and> n \<le> 214) \<or> (216 \<le> n \<and> n \<le> 246) \<or>
     (248 \<le> n \<and> n \<le> 255))"

definition strip :: "string \<Rightarrow> string" where
  \<comment> \<open>\<open>s.strip()\<close>\<close>
  "strip s = rev (dropWhile is_space (rev (dropWhile is_space s)))"

fun split_acc :: "string \<Rightarrow> string \<Rightarrow> string list" where
  "split_acc w [] = (if w = [] then [] else [w])"
| "split_acc w (c # cs) =
     (if is_space c then (if w = [] then split_acc [] cs else w # split_acc [] cs)
      else split_acc (w @ [c]) cs)"

definition split :: "string \<Rightarrow> string list" where
  \<comment> \<open>\<open>s.split()\<close>: the maximal runs of non-whitespace characters\<close>
  "split s = split_acc [] s"

fun join :: "string \<Rightarrow> string list \<Rightarrow> string" where
  \<comment> \<open>\<open>sep.join(xs)\<close>\<close>
  "join sep [] = []"
| "join sep [x] = x"
| "join sep (x # y # ys) = x @ sep @ join sep (y # ys)"

fun startswith :: "string \<Rightarrow> string \<Rightarrow> bool" where
  \<comment> \<open>\<open>s.startswith(p)\<close>\<close>
  "startswith s [] = True"
| "startswith [] (p # ps) = False"
| "startswith (c # cs) (p # ps) = (c = p \<and> startswith cs ps)"

fun contains :: "string \<Rightarrow> string \<Rightarrow> bool" where
  \<comment> \<open>\<open>sub in s\<close>\<close>
  "contains [] sub = (sub = [])"
| "contains (c # cs) sub = (startswith (c # cs) sub \<or> contains cs sub)"

definition any_in :: "string list \<Rightarrow> string \<Rightarrow> bool" where
  \<comment> \<open>\<open>any(kw in s for kw in kws)\<close>\<close>
  "any_in kws s = list_ex (\<lambda>kw. contains s kw) kws"



definition truthy :: "string option \<Rightarrow> bool" where
  \<comment> \<open>truth value of an \<open>Optional[str]\<close>: neither \<open>None\<close> nor the empty string\<close>
  "truthy r = (case r of None \<Rightarrow> False | Some s \<Rightarrow> s \<noteq> [])"

section \<open>Regular expressions of the \<open>re\<close> module\<close>

text \<open>
  The patterns of the source use literals, \<open>.\<close>, character classes, \<open>\s\<close>, \<open>\w\<close>,
  \<open>\b\<close>, \<open>^\<close>, \<open>$\<close>, groups, alternation and the greedy repetitions \<open>?\<close>, \<open>*\<close>,
  \<open>+\<close>, \<open>{3,}\<close>. A position in the subject is the character before it (if any) and
  the rest of the subject. \<open>ends\<close> lists the positions at which a match that starts
  at a given position can end, in the order in which the backtracking matcher finds
  them, so that the head of the list is the match \<open>re\<close> reports.
\<close>

datatype citem = CChar char | CSpace | CWord

datatype regex =
    Lit char
  | Dot
  | Cls bool "citem list"
  | Bol
  | Eol
  | WordB
  | Eps
  | Seq regex regex
  | Alt regex regex
  | Star regex

record flags =
  IGNORECASE :: bool
  MULTILINE :: bool

type_synonym pos = "char option \<times> string"

definition newline :: char where
  "newline = CHR 0x0A"

definition lit_eq :: "flags \<Rightarrow> char \<Rightarrow> char \<Rightarrow> bool" where
  "lit_eq f c x = (if c = x then True else if IGNORECASE f then lower_char c = lower_char x else False)"

fun citem_has :: "flags \<Rightarrow> citem \<Rightarrow> char \<Rightarrow> bool" where
  "citem_has f (CChar c) x = lit_eq f c x"
| "citem_has f CSpace x = is_space x"
| "citem_has f CWord x = is_word x"

definition word_before :: "pos \<Rightarrow> bool" where
  "word_before q = (case fst q of None \<Rightarrow> False | Some c \<Rightarrow> is_word c)"

definition word_after :: "pos \<Rightarrow> bool" where
  "word_after q = (case snd q of [] \<Rightarrow> False | c # _ \<Rightarrow> is_word c)"

definition one_char :: "(char \<Rightarrow> bool) \<Rightarrow> pos \<Rightarrow> pos list" where
  "one_char P q = (case snd q of [] \<Rightarrow> [] | x # xs \<Rightarrow> if P x then [(Some x, xs)] else [])"

definition at_bol :: "flags \<Rightarrow> pos \<Rightarrow> bool" where
  \<comment> \<open>\<open>^\<close>: the start of the subject, with MULTILINE also after every newline\<close>
  "at_bol f q = (fst q = None \<or> (MULTILINE f \<and> fst q = Some newline))"

definition at_eol :: "flags \<Rightarrow> pos \<Rightarrow> bool" where
  \<comment> \<open>\<open>$\<close>: the end of the subject or before its final newline, with MULTILINE also
      before every newline\<close>
  "at_eol f q = (snd q = [] \<or> snd q = [newline] \<or>
                 (MULTILINE f \<and> (case snd q of [] \<Rightarrow> False | c # _ \<Rightarrow> c = newline)))"

function ends :: "flags \<Rightarrow> regex \<Rightarrow> pos \<Rightarrow> pos list" where
  "ends f (Lit c) q = one_char (lit_eq f c) q"
| "ends f Dot q = one_char (\<lambda>x. x \<noteq> newline) q"
| "ends f (Cls neg items) q = one_char (\<lambda>x. list_ex (\<lambda>i. citem_has f i x) items \<noteq> neg) q"
| "ends f Bol q = (if at_bol f q then [q] else [])"
| "ends f Eol q = (if at_eol f q then [q] else [])"
| "ends f WordB q = (if word_before q \<noteq> word_after q then [q] else [])"
| "ends f Eps q = [q]"
| "ends f (Seq r1 r2) q = concat (map (ends f r2) (ends f r1 q))"
| "ends f (Alt r1 r2) q = ends f r1 q @ ends f r2 q"
| "ends f (Star r) q =
     concat (map (ends f (Star r))
                 (filter (\<lambda>q'. length (snd q') < length (snd q)) (ends f r q))) @ [q]"
  by pat_completeness auto
termination
  by (relation "measures [\<lambda>(f, r, q). size r, \<lambda>(f, r, q). length (snd q)]") auto

text \<open>The equation for \<open>Star\<close> unfolds into itself, so it is not a default rewrite rule.\<close>

declare ends.simps(10) [simp del]

definition Plus :: "regex \<Rightarrow> regex" where
  \<comment> \<open>\<open>r+\<close>\<close>
  "Plus r = Seq r (Star r)"

definition Opt :: "regex \<Rightarrow> regex" where
  \<comment> \<open>\<open>r?\<close>\<close>
  "Opt r = Alt r Eps"

definition seqs :: "regex list \<Rightarrow> regex" where
  "seqs rs = foldr Seq rs Eps"

definition alts :: "regex list \<Rightarrow> regex" where
  \<comment> \<open>\<open>r1|r2|...\<close> of at least one branch\<close>
  "alts rs = (case rs of [] \<Rightarrow> Eps | _ \<Rightarrow> foldr Alt (butlast rs) (last rs))"

definition lits :: "string \<Rightarrow> regex" where
  "lits s = seqs (map Lit s)"

definition words :: "string list \<Rightarrow> regex" where
  \<comment> \<open>\<open>(w1|w2|...)\<close>\<close>
  "words ws = alts (map lits ws)"

definition sp :: regex where
  \<comment> \<open>\<open>\s\<close>\<close>
  "sp = Cls False [CSpace]"

definition sp_or :: "string \<Rightarrow> regex" where
  \<comment> \<open>\<open>[\s...]\<close>\<close>
  "sp_or cs = Cls False (CSpace # map CChar cs)"

definition none_of :: "string \<Rightarrow> regex" where
  \<comment> \<open>\<open>[^...]\<close>\<close>
  "none_of cs = Cls True (map CChar cs)"

fun all_pos :: "char option \<Rightarrow> string \<Rightarrow> pos list" where
  "all_pos p [] = [(p, [])]"
| "all_pos p (x # xs) = (p, x # xs) # all_pos (Some x) xs"

definition re_match :: "flags \<Rightarrow> regex \<Rightarrow> string \<Rightarrow> bool" where
  \<comment> \<open>whether \<open>re.match(r, s, flags)\<close> is a match object: a match at the start of \<open>s\<close>\<close>
  "re_match f r s = (ends f r (None, s) \<noteq> [])"

definition re_search :: "flags \<Rightarrow> regex \<Rightarrow> string \<Rightarrow> bool" where
  \<comment> \<open>whether \<open>re.search(r, s, flags)\<close> is a match object: a match at some position\<close>
  "re_search f r s = list_ex (\<lambda>q. ends f r q \<noteq> []) (all_pos None s)"

definition re_fullmatch :: "flags \<Rightarrow> regex \<Rightarrow> string \<Rightarrow> bool" where
  \<comment> \<open>a match at the start of \<open>s\<close> that ends at the end of \<open>s\<close>\<close>
  "re_fullmatch f r s = list_ex (\<lambda>q. snd q = []) (ends f r (None, s))"

definition ws0 :: regex where
  \<comment> \<open>\<open>\s*\<close>\<close>
  "ws0 = Star sp"

definition ws1 :: regex where
  \<comment> \<open>\<open>\s+\<close>\<close>
  "ws1 = Plus sp"

definition apos :: regex where
  \<comment> \<open>\<open>\'?\<close>\<close>
  "apos = Opt (Lit (CHR 0x27))"

definition lits_plus :: "string \<Rightarrow> regex" where
  \<comment> \<open>a literal whose last character is repeated: \<open>hi+\<close> is \<open>lits_plus ''hi''\<close>\<close>
  "lits_plus s = Seq (lits (butlast s)) (Plus (Lit (last s)))"

fun phrase :: "string list \<Rightarrow> regex" where
  \<comment> \<open>literal words separated by \<open>\s+\<close>: \<open>how\s+are\s+you\<close>\<close>
  "phrase [] = Eps"
| "phrase [w] = lits w"
| "phrase (w # v # vs) = Seq (lits w) (Seq ws1 (phrase (v # vs)))"

section \<open>Intent classification\<close>

datatype IntentType =
  GREETING | SMALL_TALK | TIME_QUERY | DATE_QUERY | INFO_QUESTION | REAL_TIME_DATA | GENERAL_TASK

text \<open>
  The pattern tables of the source, in its order. Each entry is preceded by the raw
  pattern it translates.
\<close>

definition GREETING_PATTERNS :: "regex list" where
  \<open>GREETING_PATTERNS = [
     \<comment> \<open>\<open>^(hi+|hey+|hello+|hola|yo|sup|hii+)[\s!.,]*$\<close>\<close>
     seqs [Bol, alts [lits_plus ''hi'', lits_plus ''hey'', lits_plus ''hello'', lits ''hola'',
                      lits ''yo'', lits ''sup'', lits_plus ''hii''],
           Star (sp_or ''!.,''), Eol],
     \<comment> \<open>\<open>^good\s+(morning|afternoon|evening|night)[\s!.,]*$\<close>\<close>
     seqs [Bol, lits ''good'', ws1, words [''morning'', ''afternoon'', ''evening'', ''night''],
           Star (sp_or ''!.,''), Eol],
     \<comment> \<open>\<open>^(wassup|what\'?s\s*up)[\s!?,]*$\<close>\<close>
     seqs [Bol, alts [lits ''wassup'', seqs [lits ''what'', apos, lits ''s'', ws0, lits ''up'']],
           Star (sp_or ''!?,''), Eol],
     \<comment> \<open>\<open>^greetings?[\s!.,]*$\<close>\<close>
     seqs [Bol, lits ''greeting'', Opt (lits ''s''), Star (sp_or ''!.,''), Eol],
     \<comment> \<open>\<open>^namaste[\s!.,]*$\<close>\<close>
     seqs [Bol, lits ''namaste'', Star (sp_or ''!.,''), Eol]]\<close>

definition SMALL_TALK_PATTERNS :: "regex list" where
  \<open>SMALL_TALK_PATTERNS = [
     \<comment> \<open>\<open>^(how\s+are\s+you|how\s+r\s+u|how\'?s\s+it\s+going)[\s!?,]*$\<close>\<close>
     seqs [Bol, alts [phrase [''how'', ''are'', ''you''], phrase [''how'', ''r'', ''u''],
                      seqs [lits ''how'', apos, phrase [''s'', ''it'', ''going'']]],
           Star (sp_or ''!?,''), Eol],
     \<comment> \<open>\<open>^(thanks?|thank\s+you|thank\s+u|thx|ty)[\s!.,]*$\<close>\<close>
     seqs [Bol, alts [seqs [lits ''thank'', Opt (lits ''s'')], phrase [''thank'', ''you''],
                      phrase [''thank'', ''u''], lits ''thx'', lits ''ty''],
           Star (sp_or ''!.,''), Eol],
     \<comment> \<open>\<open>^(bye|goodbye|see\s+you|later|cya)[\s!.,]*$\<close>\<close>
     seqs [Bol, alts [lits ''bye'', lits ''goodbye'', phrase [''see'', ''you''], lits ''later'',
                      lits ''cya''],
           Star (sp_or ''!.,''), Eol],
     \<comment> \<open>\<open>^(ok|okay|fine|alright|sure|yes|no|yeah|yep|nope)[\s!.,]*$\<close>\<close>
     seqs [Bol, words [''ok'', ''okay'', ''fine'', ''alright'', ''sure'', ''yes'', ''no'', ''yeah'',
                       ''yep'', ''nope''],
           Star (sp_or ''!.,''), Eol],
     \<comment> \<open>\<open>^(nice|cool|great|awesome|wow|amazing|wonderful)[\s!.,]*$\<close>\<close>
     seqs [Bol, words [''nice'', ''cool'', ''great'', ''awesome'', ''wow'', ''amazing'', ''wonderful''],
           Star (sp_or ''!.,''), Eol],
     \<comment> \<open>\<open>^(lol|haha|hehe|hmm+|oh+|ah+)[\s!.,]*$\<close>\<close>
     seqs [Bol, alts [lits ''lol'', lits ''haha'', lits ''hehe'', lits_plus ''hmm'', lits_plus ''oh'',
                      lits_plus ''ah''],
           Star (sp_or ''!.,''), Eol],
     \<comment> \<open>\<open>^(good|awesome|perfect|excellent)[\s!.,]*$\<close>\<close>
     seqs [Bol, words [''good'', ''awesome'', ''perfect'', ''excellent''], Star (sp_or ''!.,''), Eol],
     \<comment> \<open>\<open>^you\'?re\s+welcome[\s!.,]*$\<close>\<close>
     seqs [Bol, lits ''you'', apos, phrase [''re'', ''welcome''], Star (sp_or ''!.,''), Eol],
     \<comment> \<open>\<open>^no\s+problem[\s!.,]*$\<close>\<close>
     seqs [Bol, phrase [''no'', ''problem''], Star (sp_or ''!.,''), Eol],
     \<comment> \<open>\<open>^what\s+(are\s+you\s+doing|r\s+u\s+doing)[\s!?,]*$\<close>\<close>
     seqs [Bol, lits ''what'', ws1,
           alts [phrase [''are'', ''you'', ''doing''], phrase [''r'', ''u'', ''doing'']],
           Star (sp_or ''!?,''), Eol],
     \<comment> \<open>\<open>^who\s+are\s+you[\s!?,]*$\<close>\<close>
     seqs [Bol, phrase [''who'', ''are'', ''you''], Star (sp_or ''!?,''), Eol],
     \<comment> \<open>\<open>^what\s+can\s+you\s+do[\s!?,]*$\<close>\<close>
     seqs [Bol, phrase [''what'', ''can'', ''you'', ''do''], Star (sp_or ''!?,''), Eol],
     \<comment> \<open>\<open>^why\s+are\s+you[\s!?,]*\<close> (the source has no \<open>$\<close> here)\<close>
     seqs [Bol, phrase [''why'', ''are'', ''you''], Star (sp_or ''!?,'')],
     \<comment> \<open>\<open>^what\s+is\s+your\s+name[\s!?,]*$\<close>\<close>
     seqs [Bol, phrase [''what'', ''is'', ''your'', ''name''], Star (sp_or ''!?,''), Eol],
     \<comment> \<open>\<open>^are\s+you\s+(a\s+bot|ai|real)[\s!?,]*$\<close>\<close>
     seqs [Bol, phrase [''are'', ''you''], ws1,
           alts [phrase [''a'', ''bot''], lits ''ai'', lits ''real''],
           Star (sp_or ''!?,''), Eol],
     \<comment> \<open>\<open>^(i\s+am\s+fine|i\'?m\s+fine|i\s+am\s+good|i\'?m\s+good)[\s!.,]*$\<close>\<close>
     seqs [Bol, alts [phrase [''i'', ''am'', ''fine''],
                      seqs [lits ''i'', apos, phrase [''m'', ''fine'']],
                      phrase [''i'', ''am'', ''good''],
                      seqs [lits ''i'', apos, phrase [''m'', ''good'']]],
           Star (sp_or ''!.,''), Eol]]\<close>

definition TIME_QUERY_PATTERNS :: "regex list" where
  \<open>TIME_QUERY_PATTERNS = [
     \<comment> \<open>\<open>what\s+(is\s+)?the\s+time\<close>\<close>
     seqs [lits ''what'', ws1, Opt (Seq (lits ''is'') ws1), phrase [''the'', ''time'']],
     \<comment> \<open>\<open>what\s+time\s+(is\s+it|now)\<close>\<close>
     seqs [phrase [''what'', ''time''], ws1, alts [phrase [''is'', ''it''], lits ''now'']],
     \<comment> \<open>\<open>current\s+time\<close>\<close>
     phrase [''current'', ''time''],
     \<comment> \<open>\<open>time\s+(right\s+)?now\<close>\<close>
     seqs [lits ''time'', ws1, Opt (Seq (lits ''right'') ws1), lits ''now''],
     \<comment> \<open>\<open>tell\s+(me\s+)?the\s+time\<close>\<close>
     seqs [lits ''tell'', ws1, Opt (Seq (lits ''me'') ws1), phrase [''the'', ''time'']],
     \<comment> \<open>\<open>what\'?s\s+the\s+time\<close>\<close>
     seqs [lits ''what'', apos, phrase [''s'', ''the'', ''time'']],
     \<comment> \<open>\<open>time\s+please\<close>\<close>
     phrase [''time'', ''please''],
     \<comment> \<open>\<open>^time[\s?!]*$\<close>\<close>
     seqs [Bol, lits ''time'', Star (sp_or ''?!''), Eol]]\<close>

definition DATE_QUERY_PATTERNS :: "regex list" where
  \<open>DATE_QUERY_PATTERNS = [
     \<comment> \<open>\<open>what\s+(is\s+)?today\<close>\<close>
     seqs [lits ''what'', ws1, Opt (Seq (lits ''is'') ws1), lits ''today''],
     \<comment> \<open>\<open>today\'?s?\s+date\<close>\<close>
     seqs [lits ''today'', apos, Opt (lits ''s''), ws1, lits ''date''],
     \<comment> \<open>\<open>what\s+day\s+(is\s+)?(it|today)\<close>\<close>
     seqs [phrase [''what'', ''day''], ws1, Opt (Seq (lits ''is'') ws1), words [''it'', ''today'']],
     \<comment> \<open>\<open>current\s+date\<close>\<close>
     phrase [''current'', ''date''],
     \<comment> \<open>\<open>what\s+date\s+(is\s+)?(it|today)\<close>\<close>
     seqs [phrase [''what'', ''date''], ws1, Opt (Seq (lits ''is'') ws1), words [''it'', ''today'']],
     \<comment> \<open>\<open>which\s+day\s+(is\s+)?today\<close>\<close>
     seqs [phrase [''which'', ''day''], ws1, Opt (Seq (lits ''is'') ws1), lits ''today''],
     \<comment> \<open>\<open>tell\s+(me\s+)?the\s+date\<close>\<close>
     seqs [lits ''tell'', ws1, Opt (Seq (lits ''me'') ws1), phrase [''the'', ''date'']],
     \<comment> \<open>\<open>^date[\s?!]*$\<close>\<close>
     seqs [Bol, lits ''date'', Star (sp_or ''?!''), Eol]]\<close>

definition REAL_TIME_DATA_PATTERNS :: "regex list" where
  \<open>REAL_TIME_DATA_PATTERNS = [
     \<comment> \<open>\<open>\b(weather|temperature|forecast)\b\<close>\<close>
     seqs [WordB, words [''weather'', ''temperature'', ''forecast''], WordB],
     \<comment> \<open>\<open>\b(stock|share|nasdaq|sensex|nifty)\s*(price|value)?\b\<close>\<close>
     seqs [WordB, words [''stock'', ''share'', ''nasdaq'', ''sensex'', ''nifty''], ws0,
           Opt (words [''price'', ''value'']), WordB],
     \<comment> \<open>\<open>\b(crypto|bitcoin|ethereum|btc|eth)\s*(price|value)?\b\<close>\<close>
     seqs [WordB, words [''crypto'', ''bitcoin'', ''ethereum'', ''btc'', ''eth''], ws0,
           Opt (words [''price'', ''value'']), WordB],
     \<comment> \<open>\<open>\b(exchange\s+rate|currency\s+rate|usd|eur|inr)\b\<close>\<close>
     seqs [WordB, alts [phrase [''exchange'', ''rate''], phrase [''currency'', ''rate''],
                        lits ''usd'', lits ''eur'', lits ''inr''], WordB],
     \<comment> \<open>\<open>\b(latest|current|live|breaking|recent|new)\s*(news|score|update|information|report)\b\<close>\<close>
     seqs [WordB, words [''latest'', ''current'', ''live'', ''breaking'', ''recent'', ''new''], ws0,
           words [''news'', ''score'', ''update'', ''information'', ''report''], WordB],
     \<comment> \<open>\<open>\b(score|match|game|result)\b.*\b(live|today|now|current)\b\<close>\<close>
     seqs [WordB, words [''score'', ''match'', ''game'', ''result''], WordB, Star Dot,
           WordB, words [''live'', ''today'', ''now'', ''current''], WordB],
     \<comment> \<open>\<open>\b(now\s+playing|trending|viral|happening)\b\<close>\<close>
     seqs [WordB, alts [phrase [''now'', ''playing''], lits ''trending'', lits ''viral'',
                        lits ''happening''], WordB],
     \<comment> \<open>\<open>\blatest\s+\w+\<close>\<close>
     seqs [WordB, lits ''latest'', ws1, Plus (Cls False [CWord])],
     \<comment> \<open>\<open>\bnews\s+(about|on|of|from)\b\<close>\<close>
     seqs [WordB, lits ''news'', ws1, words [''about'', ''on'', ''of'', ''from''], WordB],
     \<comment> \<open>\<open>\bwhat.*(happening|going\s+on)\b\<close>\<close>
     seqs [WordB, lits ''what'', Star Dot, alts [lits ''happening'', phrase [''going'', ''on'']],
           WordB],
     \<comment> \<open>\<open>\btoday\b.*\b(news|update|price|score)\b\<close>\<close>
     seqs [WordB, lits ''today'', WordB, Star Dot, WordB,
           words [''news'', ''update'', ''price'', ''score''], WordB],
     \<comment> \<open>\<open>\b(news|updates?)\s+(today|now|latest)\b\<close>\<close>
     seqs [WordB, alts [lits ''news'', Seq (lits ''update'') (Opt (lits ''s''))], ws1,
           words [''today'', ''now'', ''latest''], WordB]]\<close>

definition INFO_QUESTION_PATTERNS :: "regex list" where
  \<open>INFO_QUESTION_PATTERNS = [
     \<comment> \<open>\<open>^(what|who|when|where|why|how|which)\s+\<close>\<close>
     seqs [Bol, words [''what'', ''who'', ''when'', ''where'', ''why'', ''how'', ''which''], ws1],
     \<comment> \<open>\<open>(tell|explain|describe)\s+.*(about|to\s+me)\<close>\<close>
     seqs [words [''tell'', ''explain'', ''describe''], ws1, Star Dot,
           alts [lits ''about'', phrase [''to'', ''me'']]],
     \<comment> \<open>\<open>\?\s*$\<close>\<close>
     seqs [Lit (CHR ''?''), ws0, Eol],
     \<comment> \<open>\<open>\b(define|meaning\s+of|definition)\b\<close>\<close>
     seqs [WordB, alts [lits ''define'', phrase [''meaning'', ''of''], lits ''definition''], WordB],
     \<comment> \<open>\<open>^(can|could|would|will|is|are|do|does|did|has|have)\s+\<close>\<close>
     seqs [Bol, words [''can'', ''could'', ''would'', ''will'', ''is'', ''are'', ''do'', ''does'',
                       ''did'', ''has'', ''have''], ws1]]\<close>

definition re_I :: flags where
  \<comment> \<open>\<open>re.IGNORECASE\<close>\<close>
  "re_I = \<lparr>IGNORECASE = True, MULTILINE = False\<rparr>"

definition classify_intent :: "string \<Rightarrow> IntentType" where
  "classify_intent query =
     (let query_clean = strip (lower query) in
      if list_ex (\<lambda>pattern. re_search re_I pattern query_clean) TIME_QUERY_PATTERNS
        then TIME_QUERY
      else if list_ex (\<lambda>pattern. re_search re_I pattern query_clean) DATE_QUERY_PATTERNS
        then DATE_QUERY
      else if list_ex (\<lambda>pattern. re_match re_I pattern query_clean) GREETING_PATTERNS
        then GREETING
      else if list_ex (\<lambda>pattern. re_match re_I pattern query_clean) SMALL_TALK_PATTERNS
        then SMALL_TALK
      else if list_ex (\<lambda>pattern. re_search re_I pattern query_clean) REAL_TIME_DATA_PATTERNS
        then REAL_TIME_DATA
      else if list_ex (\<lambda>pattern. re_search re_I pattern query_clean) INFO_QUESTION_PATTERNS
        then INFO_QUESTION
      else GENERAL_TASK)"

text \<open>
  The examples of the specification, evaluated on the model.
\<close>

lemma classify_intent_examples:
  "classify_intent ''hello'' = GREETING"
  "classify_intent ''hi!!'' = GREETING"
  "classify_intent ''good morning'' = GREETING"
  "classify_intent ''thanks'' = SMALL_TALK"
  "classify_intent ''ok'' = SMALL_TALK"
  "classify_intent ''what is the time'' = TIME_QUERY"
  "classify_intent ''bitcoin price today'' = REAL_TIME_DATA"
  by code_simp+

text \<open>
  The rule groups are tried in the order of the source and the first group with a
  matching pattern decides; with no match the answer is \<open>GENERAL_TASK\<close>.
\<close>

lemma classify_intent_priority:
  fixes query :: string
  defines "q \<equiv> strip (lower query)"
  defines "hit \<equiv> \<lambda>m ps. list_ex (\<lambda>pattern. m re_I pattern q) ps"
  shows "hit re_search TIME_QUERY_PATTERNS \<Longrightarrow> classify_intent query = TIME_QUERY"
    and "\<not> hit re_search TIME_QUERY_PATTERNS \<Longrightarrow> hit re_search DATE_QUERY_PATTERNS \<Longrightarrow>
         classify_intent query = DATE_QUERY"
    and "\<not> hit re_search TIME_QUERY_PATTERNS \<Longrightarrow> \<not> hit re_search DATE_QUERY_PATTERNS \<Longrightarrow>
         hit re_match GREETING_PATTERNS \<Longrightarrow> classify_intent query = GREETING"
    and "\<not> hit re_search TIME_QUERY_PATTERNS \<Longrightarrow> \<not> hit re_search DATE_QUERY_PATTERNS \<Longrightarrow>
         \<not> hit re_match GREETING_PATTERNS \<Longrightarrow> hit re_match SMALL_TALK_PATTERNS \<Longrightarrow>
         classify_intent query = SMALL_TALK"
    and "\<not> hit re_search TIME_QUERY_PATTERNS \<Longrightarrow> \<not> hit re_search DATE_QUERY_PATTERNS \<Longrightarrow>
         \<not> hit re_match GREETING_PATTERNS \<Longrightarrow> \<not> hit re_match SMALL_TALK_PATTERNS \<Longrightarrow>
         hit re_search REAL_TIME_DATA_PATTERNS \<Longrightarrow> classify_intent query = REAL_TIME_DATA"
    and "\<not> hit re_search TIME_QUERY_PATTERNS \<Longrightarrow> \<not> hit re_search DATE_QUERY_PATTERNS \<Longrightarrow>
         \<not> hit re_match GREETING_PATTERNS \<Longrightarrow> \<not> hit re_match SMALL_TALK_PATTERNS \<Longrightarrow>
         \<not> hit re_search REAL_TIME_DATA_PATTERNS \<Longrightarrow> hit re_search INFO_QUESTION_PATTERNS \<Longrightarrow>
         classify_intent query = INFO_QUESTION"
    and "\<not> hit re_search TIME_QUERY_PATTERNS \<Longrightarrow> \<not> hit re_search DATE_QUERY_PATTERNS \<Longrightarrow>
         \<not> hit re_match GREETING_PATTERNS \<Longrightarrow> \<not> hit re_match SMALL_TALK_PATTERNS \<Longrightarrow>
         \<not> hit re_search REAL_TIME_DATA_PATTERNS \<Longrightarrow> \<not> hit re_search INFO_QUESTION_PATTERNS \<Longrightarrow>
         classify_intent query = GENERAL_TASK"
  unfolding classify_intent_def q_def hit_def by (simp_all add: Let_def)

text \<open>
  Claim C6. The classifier is total and tries TIME_QUERY, DATE_QUERY, GREETING,
  SMALL_TALK, REAL_TIME_DATA, INFO_QUESTION in this order, first match wins, and the
  examples of the specification hold (the two lemmas above). The claim also says that
  SMALL_TALK is an anchored full-string match. Fifteen of the sixteen small-talk
  patterns end in \<open>$\<close>; the pattern \<open>^why\s+are\s+you[\s!?,]*\<close> does not, so the
  query \<open>why are you sad\<close> is classified as SMALL_TALK although no small-talk pattern
  matches the whole query.
\<close>

theorem classify_intent_small_talk_prefix_only:
  "classify_intent ''why are you sad'' = SMALL_TALK \<and>
   \<not> list_ex (\<lambda>pattern. re_fullmatch re_I pattern (strip (lower ''why are you sad'')))
        SMALL_TALK_PATTERNS"
  by code_simp

section \<open>Configuration\<close>

text \<open>
  The module-level settings that the modelled functions read. The API keys come from
  the process environment; the other values are constants of the source.
\<close>

record config =
  MAX_HISTORY :: nat
  SEARCH_ENABLED :: bool
  TAVILY_ENABLED :: bool
  TAVILY_API_KEY :: "string option"
  GOOGLE_SEARCH_ENABLED :: bool
  GOOGLE_SEARCH_API_KEY :: "string option"
  JINA_ENABLED :: bool
  WIKIPEDIA_ENABLED :: bool

definition module_config :: "string option \<Rightarrow> string option \<Rightarrow> config" where
  "module_config tavily_key google_key =
     \<lparr>MAX_HISTORY = 10, SEARCH_ENABLED = True,
      TAVILY_ENABLED = True, TAVILY_API_KEY = tavily_key,
      GOOGLE_SEARCH_ENABLED = True, GOOGLE_SEARCH_API_KEY = google_key,
      JINA_ENABLED = True, WIKIPEDIA_ENABLED = True\<rparr>"

section \<open>The search decision\<close>

definition should_search :: "config \<Rightarrow> string \<Rightarrow> IntentType option \<Rightarrow> bool" where
  "should_search cfg query intent =
     (if \<not> SEARCH_ENABLED cfg then False
      else
        let query_lower = strip (lower query) in
        if length query_lower < 3 then False
        else
          let intent' = (case intent of None \<Rightarrow> classify_intent query | Some i \<Rightarrow> i) in
          if intent' \<in> set [GREETING, SMALL_TALK] then False
          else True)"

text \<open>
  Claim C4. With search enabled, \<open>should_search\<close> is false exactly for the intents
  GREETING and SMALL_TALK and for queries whose lower-cased, stripped text has fewer
  than three characters; for each of the five other intents and a query of at least
  three such characters it is true.
\<close>

theorem should_search_iff:
  assumes "SEARCH_ENABLED cfg"
  shows "should_search cfg q (Some i) =
           (\<not> (i = GREETING \<or> i = SMALL_TALK \<or> length (strip (lower q)) < 3)) \<and>
         (i \<in> {TIME_QUERY, DATE_QUERY, INFO_QUESTION, REAL_TIME_DATA, GENERAL_TASK} \<and>
          3 \<le> length (strip (lower q)) \<longrightarrow> should_search cfg q (Some i))"
  using assms by (auto simp: should_search_def Let_def)

theorem should_search_iff_witness:
  "SEARCH_ENABLED (module_config None None) \<and>
   should_search (module_config None None) ''what is the weather'' (Some INFO_QUESTION) \<and>
   \<not> should_search (module_config None None) ''what is the weather'' (Some GREETING) \<and>
   \<not> should_search (module_config None None) '' Hi '' (Some GENERAL_TASK)"
proof -
  let ?cfg = "module_config None None"
  have en: "SEARCH_ENABLED ?cfg"
    by (simp add: module_config_def)
  have long: "\<not> length (strip (lower ''what is the weather'')) < 3"
    by code_simp
  have short: "length (strip (lower '' Hi '')) < 3"
    by code_simp
  show ?thesis
    using en long short
      should_search_iff[OF en, of "''what is the weather''" INFO_QUESTION]
      should_search_iff[OF en, of "''what is the weather''" GREETING]
      should_search_iff[OF en, of "'' Hi ''" GENERAL_TASK]
    by simp
qed

section \<open>The adaptive response engine\<close>

record response_config =
  max_tokens :: nat
  length_instruction :: string
  response_style :: string

definition lines :: "string list \<Rightarrow> string" where
  \<comment> \<open>the lines of a multi-line literal, joined by newlines\<close>
  "lines ls = join [newline] ls"

definition bullet :: string where
  \<comment> \<open>the bullet U+2022 in UTF-8\<close>
  "bullet = [CHR 0xE2, CHR 0x80, CHR 0xA2]"

definition explicit_detail_keywords :: "string list" where
  "explicit_detail_keywords =
     [''detailed'', ''elaborate'', ''more about'', ''deep dive'',
      ''tell me everything'', ''comprehensive'', ''in detail'', ''step by step'',
      ''full explanation'', ''complete answer'', ''thorough'', ''extensive'',
      ''explain in detail'', ''give me details'', ''more information'',
      ''tell me more'', ''long answer'', ''detailed answer'']"

definition complex_question_patterns :: "string list" where
  "complex_question_patterns =
     [''how to '', ''how do i '', ''how can i '', ''what is the best way'',
      ''why does '', ''why is '', ''what are the '',
      ''explain how'', ''explain why'', ''explain what'',
      ''difference between'', ''compare '', ''versus '',
      ''advantages and disadvantages'', ''pros and cons'',
      ''step by step'', ''guide to'', ''tutorial'']"

definition short_keywords :: "string list" where
  "short_keywords =
     [''briefly'', ''short'', ''quick'', ''tldr'', ''just tell me'', ''simple'',
      ''in short'', ''summarize'', ''one line'', ''quick answer'', ''be brief'']"

definition casual_config :: response_config where
  "casual_config =
     \<lparr>max_tokens = 500,
      length_instruction = lines
        [''RESPONSE LENGTH: 2-4 sentences only.'',
         ''Be warm, friendly, and conversational. Keep it brief - this is casual chat.''],
      response_style = ''casual''\<rparr>"

definition brief_config :: response_config where
  "brief_config =
     \<lparr>max_tokens = 800,
      length_instruction = lines
        [''RESPONSE LENGTH: ~50 words maximum (about 300 characters).'',
         ''Give a direct, concise answer. User specifically wants it SHORT.'',
         ''Skip elaborate explanations - get to the point immediately.''],
      response_style = ''brief''\<rparr>"

definition detailed_config :: response_config where
  "detailed_config =
     \<lparr>max_tokens = 6000,
      length_instruction = lines
        [''RESPONSE LENGTH: ~400-500 words (approximately 2500 characters).'',
         ''Provide a COMPREHENSIVE, DETAILED response. The user wants thorough information.'',
         '''',
         ''REQUIREMENTS:'',
         bullet @ '' Cover all relevant aspects of the topic'',
         bullet @ '' Include examples, facts, and context'',
         bullet @ '' Use numbered sections for organization'',
         bullet @ '' Break complex topics into clear parts'',
         bullet @ '' Be educational and complete'',
         '''',
         ''Use **bold** for key terms, numbered lists for steps, bullet points for features.''],
      response_style = ''detailed''\<rparr>"

definition normal_config :: response_config where
  "normal_config =
     \<lparr>max_tokens = 4000,
      length_instruction = lines
        [''RESPONSE LENGTH: ~200-300 words (about 1500 characters).'',
         '''',
         ''Provide a clear, informative answer that:'',
         bullet @ '' Answers the question directly and completely'',
         bullet @ '' Includes relevant context and details'',
         bullet @ '' Uses formatting when it helps clarity'',
         bullet @ '' Balances thoroughness with readability'',
         '''',
         ''Use **bold** for key terms, numbered lists for steps or multiple items.''],
      response_style = ''normal''\<rparr>"

definition get_dynamic_response_config ::
    "string \<Rightarrow> IntentType option \<Rightarrow> bool \<Rightarrow> response_config" where
  "get_dynamic_response_config query intent has_search_results =
     (let query_lower = strip (lower query);
          word_count = length (split query);
          wants_detail = (any_in explicit_detail_keywords query_lower \<or>
                          any_in complex_question_patterns query_lower \<or>
                          word_count \<ge> 12);
          wants_short = any_in short_keywords query_lower;
          is_greeting = (intent \<in> set [Some GREETING, Some SMALL_TALK])
      in if is_greeting then casual_config
         else if wants_short then brief_config
         else if wants_detail then detailed_config
         else normal_config)"

text \<open>
  Claim C8. The planner returns the casual shape (500 tokens, 2-4 sentences) for the
  intents GREETING and SMALL_TALK whatever the query says; otherwise the brief shape
  (about 50 words) when the query has a brevity keyword, even if it also has a detail
  keyword; otherwise the detailed shape (about 400-500 words) when the query has a
  detail keyword, a complex-question pattern or at least twelve words; otherwise the
  normal shape (about 200-300 words).
\<close>

theorem get_dynamic_response_config_precedence:
  fixes query :: string and intent :: "IntentType option" and has_search_results :: bool
  defines "ql \<equiv> strip (lower query)"
  defines "cfg \<equiv> get_dynamic_response_config query intent has_search_results"
  defines "greeting \<equiv> (intent = Some GREETING \<or> intent = Some SMALL_TALK)"
  defines "brevity \<equiv> any_in short_keywords ql"
  defines "detail \<equiv> (any_in explicit_detail_keywords ql \<or> any_in complex_question_patterns ql \<or>
                      12 \<le> length (split query))"
  shows "(greeting \<longrightarrow>
            cfg = casual_config \<and> max_tokens cfg = 500 \<and> response_style cfg = ''casual'' \<and>
            startswith (length_instruction cfg) ''RESPONSE LENGTH: 2-4 sentences only.'') \<and>
         (\<not> greeting \<and> brevity \<longrightarrow>
            cfg = brief_config \<and> response_style cfg = ''brief'' \<and>
            startswith (length_instruction cfg) ''RESPONSE LENGTH: ~50 words'') \<and>
         (\<not> greeting \<and> \<not> brevity \<and> detail \<longrightarrow>
            cfg = detailed_config \<and> response_style cfg = ''detailed'' \<and>
            startswith (length_instruction cfg) ''RESPONSE LENGTH: ~400-500 words'') \<and>
         (\<not> greeting \<and> \<not> brevity \<and> \<not> detail \<longrightarrow>
            cfg = normal_config \<and> response_style cfg = ''normal'' \<and>
            startswith (length_instruction cfg) ''RESPONSE LENGTH: ~200-300 words'')"
proof -
  have shapes:
    "max_tokens casual_config = 500" "response_style casual_config = ''casual''"
    "startswith (length_instruction casual_config) ''RESPONSE LENGTH: 2-4 sentences only.''"
    "response_style brief_config = ''brief''"
    "startswith (length_instruction brief_config) ''RESPONSE LENGTH: ~50 words''"
    "response_style detailed_config = ''detailed''"
    "startswith (length_instruction detailed_config) ''RESPONSE LENGTH: ~400-500 words''"
    "response_style normal_config = ''normal''"
    "startswith (length_instruction normal_config) ''RESPONSE LENGTH: ~200-300 words''"
    by (simp_all add: casual_config_def brief_config_def detailed_config_def normal_config_def
        lines_def)
  have cases:
    "greeting \<Longrightarrow> cfg = casual_config"
    "\<not> greeting \<Longrightarrow> brevity \<Longrightarrow> cfg = brief_config"
    "\<not> greeting \<Longrightarrow> \<not> brevity \<Longrightarrow> detail \<Longrightarrow> cfg = detailed_config"
    "\<not> greeting \<Longrightarrow> \<not> brevity \<Longrightarrow> \<not> detail \<Longrightarrow> cfg = normal_config"
    unfolding cfg_def greeting_def brevity_def detail_def ql_def get_dynamic_response_config_def
    by (auto simp: Let_def)
  show ?thesis
    using cases shapes by auto
qed

theorem get_dynamic_response_config_precedence_witness:
  "any_in short_keywords (strip (lower ''Explain briefly, in detail, how to bake bread'')) \<and>
   any_in explicit_detail_keywords (strip (lower ''Explain briefly, in detail, how to bake bread'')) \<and>
   get_dynamic_response_config ''Explain briefly, in detail, how to bake bread''
     (Some INFO_QUESTION) False = brief_config \<and>
   get_dynamic_response_config ''Explain briefly, in detail, how to bake bread''
     (Some GREETING) False = casual_config \<and>
   12 \<le> length (split ''a b c d e f g h i j k l'') \<and>
   get_dynamic_response_config ''a b c d e f g h i j k l'' None False = detailed_config \<and>
   get_dynamic_response_config ''a b c'' None False = normal_config"
proof -
  let ?q = "''Explain briefly, in detail, how to bake bread''"
  have b: "any_in short_keywords (strip (lower ?q))"
    by code_simp
  have d: "any_in explicit_detail_keywords (strip (lower ?q))"
    by code_simp
  have w: "12 \<le> length (split ''a b c d e f g h i j k l'')"
    by code_simp
  have nb: "\<not> any_in short_keywords (strip (lower ''a b c d e f g h i j k l''))"
    by code_simp
  have n3: "\<not> any_in short_keywords (strip (lower ''a b c''))"
       "\<not> any_in explicit_detail_keywords (strip (lower ''a b c''))"
       "\<not> any_in complex_question_patterns (strip (lower ''a b c''))"
       "\<not> 12 \<le> length (split ''a b c'')"
    by code_simp+
  show ?thesis
    using b d w nb n3
      get_dynamic_response_config_precedence[of "Some INFO_QUESTION" ?q False]
      get_dynamic_response_config_precedence[of "Some GREETING" ?q False]
      get_dynamic_response_config_precedence[of None "''a b c d e f g h i j k l''" False]
      get_dynamic_response_config_precedence[of None "''a b c''" False]
    by simp
qed

section \<open>Query rewriting for search\<close>




lemma lower_char_idem: "lower_char (lower_char c) = lower_char c"
proof -
  have "list_all (\<lambda>c. lower_char (lower_char c) = lower_char c) Enum.enum"
    by code_simp
  then show ?thesis
    by (simp add: list_all_iff enum_UNIV)
qed

lemma lower_idem: "lower (lower s) = lower s"
  by (simp add: lower_def lower_char_idem)











section \<open>Substitution with \<open>re.sub\<close>\<close>

text \<open>
  \<open>re.sub\<close> searches for the leftmost match from the end of the previous one, copies
  the text it skipped, writes the replacement and goes on. After an empty match the next
  match must not be empty at the same place (\<open>must_advance\<close> in CPython).
\<close>

definition candidates :: "flags \<Rightarrow> regex \<Rightarrow> bool \<Rightarrow> pos \<Rightarrow> pos list" where
  \<comment> \<open>the matches that start at a position; after an empty match (\<open>must_advance\<close>) the
      empty ones do not count\<close>
  "candidates f r must_advance q =
     (if must_advance then filter (\<lambda>e. length (snd e) \<noteq> length (snd q)) (ends f r q)
      else ends f r q)"

fun sub_search :: "flags \<Rightarrow> regex \<Rightarrow> bool \<Rightarrow> char option \<Rightarrow> string \<Rightarrow> (string \<times> bool \<times> pos) option" where
  \<comment> \<open>the leftmost match from a position: the text skipped before it, whether the match
      is empty, and where it ends\<close>
  "sub_search f r must_advance p [] =
     (case candidates f r must_advance (p, []) of
        e # _ \<Rightarrow> Some ([], True, e)
      | [] \<Rightarrow> None)"
| "sub_search f r must_advance p (c # cs) =
     (case candidates f r must_advance (p, c # cs) of
        e # _ \<Rightarrow> Some ([], length (snd e) = length (c # cs), e)
      | [] \<Rightarrow>
         (case sub_search f r False (Some c) cs of
            None \<Rightarrow> None
          | Some (skipped, zw, e) \<Rightarrow> Some (c # skipped, zw, e)))"

lemma one_char_length: "e \<in> set (one_char P q) \<Longrightarrow> length (snd e) \<le> length (snd q)"
  by (cases "snd q") (auto simp: one_char_def split: if_splits)

lemma ends_length: "e \<in> set (ends f r q) \<Longrightarrow> length (snd e) \<le> length (snd q)"
proof (induction f r q arbitrary: e rule: ends.induct)
  case (1 f c q)
  then show ?case using one_char_length by simp
next
  case (2 f q)
  then show ?case using one_char_length by simp
next
  case (3 f neg items q)
  then show ?case using one_char_length by simp
next
  case (4 f q)
  then show ?case by (simp split: if_splits)
next
  case (5 f q)
  then show ?case by (simp split: if_splits)
next
  case (6 f q)
  then show ?case by (simp split: if_splits)
next
  case (7 f q)
  then show ?case by simp
next
  case (8 f r1 r2 q)
  from 8(3) obtain m where m: "m \<in> set (ends f r1 q)" "e \<in> set (ends f r2 m)"
    by auto
  from 8(1)[OF m(1)] 8(2)[OF m(1) m(2)] show ?case by simp
next
  case (9 f r1 r2 q)
  from 9(3) have "e \<in> set (ends f r1 q) \<or> e \<in> set (ends f r2 q)"
    by simp
  with 9(1) 9(2) show ?case by blast
next
  case (10 f r q)
  show ?case
  proof (cases "e = q")
    case True
    then show ?thesis by simp
  next
    case False
    from 10(3) have "e \<in> set (concat (map (ends f (Star r))
        (filter (\<lambda>q'. length (snd q') < length (snd q)) (ends f r q)))) \<or> e = q"
      by (subst (asm) ends.simps(10)) auto
    with False obtain m where m: "m \<in> set (ends f r q)" "length (snd m) < length (snd q)"
        "e \<in> set (ends f (Star r) m)"
      by auto
    from 10(2)[of m e] m show ?thesis by simp
  qed
qed

lemma candidates_hd:
  assumes "candidates f r ma q = e # es"
  shows "length (snd e) \<le> length (snd q)" and "ma \<Longrightarrow> length (snd e) \<noteq> length (snd q)"
proof -
  have mem: "e \<in> set (candidates f r ma q)"
    using assms by simp
  then have "e \<in> set (ends f r q)"
    by (auto simp: candidates_def split: if_splits)
  then show "length (snd e) \<le> length (snd q)"
    by (rule ends_length)
  show "ma \<Longrightarrow> length (snd e) \<noteq> length (snd q)"
    using mem by (auto simp: candidates_def)
qed

lemma sub_search_length:
  "sub_search f r ma p s = Some (skipped, zw, e) \<Longrightarrow>
     length (snd e) + length skipped \<le> length s \<and>
     zw = (length (snd e) + length skipped = length s) \<and>
     (ma \<and> skipped = [] \<longrightarrow> \<not> zw)"
proof (induction s arbitrary: ma p skipped zw e)
  case Nil
  then obtain es where c: "candidates f r ma (p, []) = e # es" and sk: "skipped = []" and z: "zw"
    by (auto split: list.splits)
  from candidates_hd[OF c] sk z show ?case by auto
next
  case (Cons c cs)
  show ?case
  proof (cases "candidates f r ma (p, c # cs)")
    case Nil
    with Cons.prems obtain sk where sk: "sub_search f r False (Some c) cs = Some (sk, zw, e)"
        "skipped = c # sk"
      by (auto split: option.splits)
    from Cons.IH[OF sk(1)] sk(2) show ?thesis by auto
  next
    case (Cons e' es)
    with Cons.prems have eq: "skipped = []" "e = e'" "zw = (length (snd e') = length (c # cs))"
      by auto
    from candidates_hd[OF Cons] eq show ?thesis by auto
  qed
qed

function sub_loop :: "flags \<Rightarrow> regex \<Rightarrow> string \<Rightarrow> bool \<Rightarrow> pos \<Rightarrow> string" where
  "sub_loop f r repl must_advance q =
     (case sub_search f r must_advance (fst q) (snd q) of
        None \<Rightarrow> snd q
      | Some (skipped, zw, e) \<Rightarrow> skipped @ repl @ sub_loop f r repl zw e)"
  by pat_completeness auto
termination
proof (relation "measures [\<lambda>(f, r, repl, ma, q). length (snd q),
                            \<lambda>(f, r, repl, ma, q). if ma then 0 else 1]", goal_cases)
  case 1
  then show ?case by simp
next
  case (2 f r repl must_advance q x2 skipped y zw e)
  then have "sub_search f r must_advance (fst q) (snd q) = Some (skipped, zw, e)"
    by simp
  from sub_search_length[OF this]
  have le: "length (snd e) + length skipped \<le> length (snd q)"
    and zw: "zw = (length (snd e) + length skipped = length (snd q))"
    and adv: "must_advance \<and> skipped = [] \<longrightarrow> \<not> zw"
    by blast+
  show ?case
  proof (cases "length (snd e) < length (snd q)")
    case True
    then show ?thesis by simp
  next
    case False
    with le have eq: "length (snd e) = length (snd q)" and sk: "skipped = []"
      by (cases skipped; simp)+
    with zw have "zw" by simp
    with adv sk have "\<not> must_advance" by blast
    with eq \<open>zw\<close> show ?thesis by simp
  qed
qed

declare sub_loop.simps [simp del]

definition re_sub :: "flags \<Rightarrow> regex \<Rightarrow> string \<Rightarrow> string \<Rightarrow> string" where
  \<comment> \<open>\<open>re.sub(r, repl, s, flags=f)\<close> for a replacement without group references\<close>
  "re_sub f r repl s = sub_loop f r repl False (None, s)"

section \<open>Cleaning a response\<close>

definition one_of :: "string \<Rightarrow> regex" where
  \<comment> \<open>\<open>[...]\<close>\<close>
  "one_of cs = Cls False (map CChar cs)"

definition marker :: "string \<Rightarrow> regex" where
  \<comment> \<open>\<open>\n*---+\s*TEXT[^-]*---+\s*\<close>\<close>
  "marker txt = seqs [Star (Lit newline), lits_plus ''---'', ws0, lits txt,
                      Star (none_of ''-''), lits_plus ''---'', ws0]"

definition unwanted_patterns :: "regex list" where
  \<open>unwanted_patterns = [
     \<comment> \<open>\<open>^(As an AI|I\'m an AI|I am an AI|As a language model)[^.!?]*[.!?]\s*\<close>\<close>
     seqs [Bol, words [''As an AI'', ''I'm an AI'', ''I am an AI'', ''As a language model''],
           Star (none_of ''.!?''), one_of ''.!?'', ws0],
     \<comment> \<open>\<open>^(I don\'t have personal opinions|I cannot provide personal opinions)[^.!?]*[.!?]\s*\<close>\<close>
     seqs [Bol, words [''I don't have personal opinions'', ''I cannot provide personal opinions''],
           Star (none_of ''.!?''), one_of ''.!?'', ws0],
     \<comment> \<open>\<open>^(Here\'s|Here is) (the |my |an? )?(?:response|answer|information)[^:]*:\s*\<close>\<close>
     seqs [Bol, words [''Here's'', ''Here is''], lits '' '',
           Opt (alts [lits ''the '', lits ''my '', seqs [lits ''a'', Opt (lits ''n''), lits '' '']]),
           words [''response'', ''answer'', ''information''], Star (none_of '':''), lits '':'', ws0],
     \<comment> \<open>\<open>\n*---+\s*This is casual chat[^-]*---+\s*\<close>\<close>
     marker ''This is casual chat'',
     \<comment> \<open>\<open>\n*---+\s*Give a brief[^-]*---+\s*\<close>\<close>
     marker ''Give a brief'',
     \<comment> \<open>\<open>\n*---+\s*Write a helpful[^-]*---+\s*\<close>\<close>
     marker ''Write a helpful'',
     \<comment> \<open>\<open>\n*---+\s*The user wants[^-]*---+\s*\<close>\<close>
     marker ''The user wants'',
     \<comment> \<open>\<open>^(So,?\s+|Well,?\s+|Certainly!?\s+|Absolutely!?\s+|Great question!?\s+|Sure!?\s+)\<close>\<close>
     seqs [Bol, alts [seqs [lits ''So'', Opt (lits '',''), ws1],
                      seqs [lits ''Well'', Opt (lits '',''), ws1],
                      seqs [lits ''Certainly'', Opt (lits ''!''), ws1],
                      seqs [lits ''Absolutely'', Opt (lits ''!''), ws1],
                      seqs [lits ''Great question'', Opt (lits ''!''), ws1],
                      seqs [lits ''Sure'', Opt (lits ''!''), ws1]]],
     \<comment> \<open>\<open>^(I\'d be happy to|I would be happy to|I\'m happy to)[^.!?]*[.!?]?\s*\<close>\<close>
     seqs [Bol, words [''I'd be happy to'', ''I would be happy to'', ''I'm happy to''],
           Star (none_of ''.!?''), Opt (one_of ''.!?''), ws0]]\<close>

definition re_IM :: flags where
  \<comment> \<open>\<open>re.IGNORECASE | re.MULTILINE\<close>\<close>
  "re_IM = \<lparr>IGNORECASE = True, MULTILINE = True\<rparr>"

definition re_noflags :: flags where
  "re_noflags = \<lparr>IGNORECASE = False, MULTILINE = False\<rparr>"

definition three_newlines :: regex where
  \<comment> \<open>\<open>\n{3,}\<close>\<close>
  "three_newlines = seqs [Lit newline, Lit newline, Lit newline, Star (Lit newline)]"

definition substitute_unwanted :: "string \<Rightarrow> string" where
  \<comment> \<open>the loop over \<open>unwanted_patterns\<close> and the collapse of blank lines\<close>
  "substitute_unwanted response =
     re_sub re_noflags three_newlines [newline, newline]
       (foldl (\<lambda>cleaned pattern. re_sub re_IM pattern [] cleaned) response unwanted_patterns)"

definition validate_and_clean_response :: "string \<Rightarrow> string \<Rightarrow> string" where
  "validate_and_clean_response response query =
     (if response = [] then response
      else
        let cleaned = strip (substitute_unwanted response) in
        if cleaned = [] then strip response
        else cleaned)"

text \<open>
  Claim C9 says that a non-empty response is never cleaned to the empty string. The
  fallback returns \<open>response.strip()\<close>, so a response made of whitespace only is
  non-empty and still comes back empty.
\<close>

theorem validate_and_clean_response_blank:
  "'' '' \<noteq> [] \<and> validate_and_clean_response '' '' ''hello'' = []"
  by code_simp

text \<open>
  Claim C9, amended. A response with at least one non-whitespace character (its
  stripped text is not empty) is never cleaned to the empty string: when the
  substitutions leave only whitespace, the result is the original response stripped of
  surrounding whitespace.
\<close>

theorem validate_and_clean_response_nonempty:
  assumes "strip response \<noteq> []"
  shows "validate_and_clean_response response query \<noteq> [] \<and>
         (strip (substitute_unwanted response) = [] \<longrightarrow>
            validate_and_clean_response response query = strip response)"
proof -
  from assms have "response \<noteq> []"
    by (auto simp: strip_def)
  with assms show ?thesis
    by (simp add: validate_and_clean_response_def Let_def)
qed

theorem validate_and_clean_response_nonempty_witness:
  "strip ''So, '' \<noteq> [] \<and> strip (substitute_unwanted ''So, '') = [] \<and>
   validate_and_clean_response ''So, '' ''hello'' = ''So,''"
proof -
  have s: "strip ''So, '' = ''So,''"
    by code_simp
  have c: "strip (substitute_unwanted ''So, '') = []"
    by code_simp
  from s have ne: "strip ''So, '' \<noteq> []"
    by simp
  show ?thesis
    using s c validate_and_clean_response_nonempty[OF ne, of "''hello''"] by simp
qed

section \<open>The search resolver\<close>

text \<open>
  The search backends are network services. One awaited call either raises an
  exception or returns an \<open>Optional[str]\<close>; what each call yields is given by the
  environment. \<open>smart_search\<close> is modelled together with the list of the calls it
  makes, in the order it makes them.
\<close>

datatype exn = Exception string

type_synonym fetched = "exn + string option"

record backends =
  get_accurate_time :: fetched
  search_tavily :: "string \<Rightarrow> fetched"
  search_internet :: "string \<Rightarrow> fetched"
  search_duckduckgo_instant :: "string \<Rightarrow> fetched"
  search_ddgs :: "string \<Rightarrow> nat \<Rightarrow> fetched"
  search_wikipedia :: "string \<Rightarrow> fetched"
  search_jina :: "string \<Rightarrow> fetched"

datatype call =
  CallTime | CallTavily | CallGoogle | CallDDGInstant | CallDDGS nat | CallWikipedia | CallJina

type_synonym search_result = "string option \<times> string list"

type_synonym step = "call list \<times> search_result option"

definition adequate :: "fetched \<Rightarrow> bool" where
  \<comment> \<open>\<open>result and len(result) > 50\<close> for a call that returned\<close>
  "adequate f = (case f of Inl e \<Rightarrow> False | Inr None \<Rightarrow> False
                 | Inr (Some s) \<Rightarrow> s \<noteq> [] \<and> length s > 50)"

definition try_backend :: "call \<Rightarrow> fetched \<Rightarrow> string \<Rightarrow> step" where
  \<comment> \<open>\<open>try: r = await backend(query); if r and len(r) > 50: return (r, [label])
      except Exception: log\<close>\<close>
  "try_backend c f label =
     (case f of
        Inl e \<Rightarrow> ([c], None)
      | Inr None \<Rightarrow> ([c], None)
      | Inr (Some s) \<Rightarrow>
          if s \<noteq> [] \<and> length s > 50 then ([c], Some (Some s, [label])) else ([c], None))"

definition time_step :: "backends \<Rightarrow> string \<Rightarrow> step" where
  "time_step b query =
     (let query_lower = lower query;
          is_time_query = any_in [''time'', ''date'', ''today'', ''now'', ''current time''] query_lower
      in if is_time_query then
           (case get_accurate_time b of
              Inl e \<Rightarrow> ([CallTime], None)
            | Inr None \<Rightarrow> ([CallTime], None)
            | Inr (Some s) \<Rightarrow>
                if s \<noteq> [] then ([CallTime], Some (Some s, [''Time API''])) else ([CallTime], None))
         else ([], None))"

definition tavily_step :: "config \<Rightarrow> backends \<Rightarrow> string \<Rightarrow> step" where
  "tavily_step cfg b query =
     (if TAVILY_ENABLED cfg \<and> truthy (TAVILY_API_KEY cfg)
      then try_backend CallTavily (search_tavily b query) ''Tavily AI Search''
      else ([], None))"

definition google_step :: "config \<Rightarrow> backends \<Rightarrow> string \<Rightarrow> step" where
  "google_step cfg b query =
     (if GOOGLE_SEARCH_ENABLED cfg \<and> truthy (GOOGLE_SEARCH_API_KEY cfg)
      then try_backend CallGoogle (search_internet b query) ''Google Search''
      else ([], None))"

definition ddg_instant_step :: "backends \<Rightarrow> string \<Rightarrow> step" where
  \<comment> \<open>a short instant answer is merged with three results of the full search; the merge
      is inside the \<open>try\<close>, so an exception of the second call discards the answer\<close>
  "ddg_instant_step b query =
     (case search_duckduckgo_instant b query of
        Inl e \<Rightarrow> ([CallDDGInstant], None)
      | Inr None \<Rightarrow> ([CallDDGInstant], None)
      | Inr (Some instant_result) \<Rightarrow>
          if instant_result \<noteq> [] \<and> length instant_result > 50 then
            (if length instant_result < 300 then
               (case search_ddgs b query 3 of
                  Inl e \<Rightarrow> ([CallDDGInstant, CallDDGS 3], None)
                | Inr ddg_extra \<Rightarrow>
                    ([CallDDGInstant, CallDDGS 3],
                     Some (Some (case ddg_extra of
                                   None \<Rightarrow> instant_result
                                 | Some extra \<Rightarrow>
                                     if extra \<noteq> []
                                     then instant_result @ [newline, newline] @
                                          ''**Additional Context:**'' @ [newline] @ extra
                                     else instant_result),
                           [''DuckDuckGo Instant''])))
             else ([CallDDGInstant], Some (Some instant_result, [''DuckDuckGo Instant''])))
          else ([CallDDGInstant], None))"

definition ddg_full_step :: "backends \<Rightarrow> string \<Rightarrow> step" where
  "ddg_full_step b query = try_backend (CallDDGS 5) (search_ddgs b query 5) ''DuckDuckGo''"

definition wikipedia_step :: "config \<Rightarrow> backends \<Rightarrow> string \<Rightarrow> step" where
  "wikipedia_step cfg b query =
     (if WIKIPEDIA_ENABLED cfg
      then try_backend CallWikipedia (search_wikipedia b query) ''Wikipedia''
      else ([], None))"

definition jina_step :: "config \<Rightarrow> backends \<Rightarrow> string \<Rightarrow> step" where
  "jina_step cfg b query =
     (if JINA_ENABLED cfg
      then try_backend CallJina (search_jina b query) ''Jina AI''
      else ([], None))"

definition smart_search :: "config \<Rightarrow> backends \<Rightarrow> string \<Rightarrow> call list \<times> search_result" where
  \<comment> \<open>the blocks of the source in sequence; a block that returns ends the function\<close>
  "smart_search cfg b query =
     (case time_step b query of (c0, Some r) \<Rightarrow> (c0, r) | (c0, None) \<Rightarrow>
      case tavily_step cfg b query of (c1, Some r) \<Rightarrow> (c0 @ c1, r) | (c1, None) \<Rightarrow>
      case google_step cfg b query of (c2, Some r) \<Rightarrow> (c0 @ c1 @ c2, r) | (c2, None) \<Rightarrow>
      case ddg_instant_step b query of (c3, Some r) \<Rightarrow> (c0 @ c1 @ c2 @ c3, r) | (c3, None) \<Rightarrow>
      case ddg_full_step b query of (c4, Some r) \<Rightarrow> (c0 @ c1 @ c2 @ c3 @ c4, r) | (c4, None) \<Rightarrow>
      case wikipedia_step cfg b query of
        (c5, Some r) \<Rightarrow> (c0 @ c1 @ c2 @ c3 @ c4 @ c5, r) | (c5, None) \<Rightarrow>
      case jina_step cfg b query of
        (c6, Some r) \<Rightarrow> (c0 @ c1 @ c2 @ c3 @ c4 @ c5 @ c6, r)
      | (c6, None) \<Rightarrow> (c0 @ c1 @ c2 @ c3 @ c4 @ c5 @ c6, (None, [])))"


fun fallback_chain :: "step list \<Rightarrow> call list \<times> search_result" where
  "fallback_chain [] = ([], (None, []))"
| "fallback_chain ((calls, Some r) # rest) = (calls, r)"
| "fallback_chain ((calls, None) # rest) = (calls @ fst (fallback_chain rest), snd (fallback_chain rest))"










definition raised :: "fetched \<Rightarrow> bool" where
  "raised f = (case f of Inl e \<Rightarrow> True | Inr r \<Rightarrow> False)"










definition swallow :: "fetched \<Rightarrow> fetched" where
  \<comment> \<open>an exception treated as no result\<close>
  "swallow f = (case f of Inl e \<Rightarrow> Inr None | Inr r \<Rightarrow> Inr r)"














lemma fallback_chain_head:
  "set (fst s) \<subseteq> set (fst (fallback_chain (s # rest)))"
  by (cases s; cases "snd s") auto







lemma swallow_answers:
  "adequate (swallow f) = adequate f" "raised (swallow f) = False"
  by (auto simp: swallow_def adequate_def raised_def split: sum.splits)



text \<open>
  Claim C3 says that a later backend is attempted only if every earlier one produced no
  adequate result, and that the result is \<open>(None, [])\<close> when every backend fails. Two
  runs on stubbed backends show otherwise. In the first the instant answer is adequate
  (61 characters) and the supplementary search raises: the exception leaves the whole
  \<open>try\<close> block, the answer is dropped and every later backend is called. In the second
  the time service answers a time query with 8 characters, which is not adequate, and
  every other backend fails: the answer is returned all the same.
\<close>

definition instant_text :: string where
  "instant_text = ''Python is a high-level, general-purpose programming language.''"





text \<open>
  Three runs. A time query answered by the time service in 8 characters. A query for
  which Tavily raises, Google answers too briefly and the instant answer of 61
  characters is extended by the supplementary search; the full search is not made. A
  query for which every backend fails.
\<close>

definition stub_backends :: "fetched \<Rightarrow> fetched \<Rightarrow> backends" where
  "stub_backends instant full =
     \<lparr>get_accurate_time = Inr (Some ''12:00 PM''),
      search_tavily = (\<lambda>q. Inl (Exception ''timeout'')),
      search_internet = (\<lambda>q. Inr (Some ''too short'')),
      search_duckduckgo_instant = (\<lambda>q. instant),
      search_ddgs = (\<lambda>q n. full),
      search_wikipedia = (\<lambda>q. Inr (Some [])),
      search_jina = (\<lambda>q. Inl (Exception ''503''))\<rparr>"


section \<open>The generation race\<close>

text \<open>
  \<open>race_ai_models\<close> starts one task per provider and waits with
  \<open>asyncio.wait(tasks, return_when=FIRST_COMPLETED)\<close>. What the scheduler and the
  providers do is given by the environment: the result of each task once it has
  finished (a completion, or the exception it raised), the order in which the two tasks
  finish, and the \<open>done\<close> set of the first wait, in the order in which the loop visits
  it. The \<open>done\<close> set holds the tasks that had finished when the wait returned: it is not
  empty, holds no task twice, and is an initial part of the finishing order. It is a
  Python \<open>set\<close>, so the order in which \<open>for task in done\<close> visits it is not tied to the
  finishing order. With two tasks at most one is still pending, so the second wait
  returns exactly the pending tasks. A completion is a pair (text, provider), which is
  always true as a condition.
\<close>

datatype task = GroqTask | CerebrasTask

type_synonym completion = "string \<times> string"

record race_env =
  groq_result :: "exn + completion"
  cerebras_result :: "exn + completion"
  finish_order :: "task list"
  first_done :: "task list"

definition task_result :: "race_env \<Rightarrow> task \<Rightarrow> exn + completion" where
  "task_result env t = (case t of GroqTask \<Rightarrow> groq_result env | CerebrasTask \<Rightarrow> cerebras_result env)"

fun first_result :: "race_env \<Rightarrow> task list \<Rightarrow> completion option" where
  \<comment> \<open>\<open>for task in done: try: return task.result() except Exception: log\<close>\<close>
  "first_result env [] = None"
| "first_result env (t # ts) =
     (case task_result env t of Inr result \<Rightarrow> Some result | Inl e \<Rightarrow> first_result env ts)"

definition race_wf :: "race_env \<Rightarrow> bool" where
  "race_wf env =
     ((finish_order env = [GroqTask, CerebrasTask] \<or> finish_order env = [CerebrasTask, GroqTask]) \<and>
      first_done env \<noteq> [] \<and> distinct (first_done env) \<and>
      set (first_done env) = set (take (length (first_done env)) (finish_order env)))"

definition race_ai_models :: "race_env \<Rightarrow> task list \<times> (exn + completion)" where
  \<comment> \<open>the tasks it cancelled, and the completion it returned or the exception it raised\<close>
  "race_ai_models env =
     (let tasks = [GroqTask, CerebrasTask];
          done = first_done env;
          pending = filter (\<lambda>t. t \<notin> set done) tasks
      in case first_result env done of
           Some result \<Rightarrow> (pending, Inr result)
         | None \<Rightarrow>
            (case (if pending \<noteq> [] then first_result env pending else None) of
               Some result \<Rightarrow> ([], Inr result)
             | None \<Rightarrow> ([], Inl (Exception ''All AI models failed to respond.''))))"

text \<open>
  The specification's vocabulary: a task succeeded when it returned a completion; the
  first task that completes successfully is the earliest successful one in the
  finishing order.
\<close>

definition succeeded :: "race_env \<Rightarrow> task \<Rightarrow> bool" where
  "succeeded env t = (case task_result env t of Inl e \<Rightarrow> False | Inr result \<Rightarrow> True)"

definition first_successful :: "race_env \<Rightarrow> task option" where
  "first_successful env = find (succeeded env) (finish_order env)"

definition outcome_of :: "race_env \<Rightarrow> task option \<Rightarrow> exn + completion" where
  \<comment> \<open>the winner's completion, or the exception of the race when there is no winner\<close>
  "outcome_of env winner =
     (case winner of
        Some t \<Rightarrow> task_result env t
      | None \<Rightarrow> Inl (Exception ''All AI models failed to respond.''))"

lemma race_wf_cases:
  assumes "race_wf env"
  shows "first_done env \<in> {[GroqTask], [CerebrasTask], [GroqTask, CerebrasTask], [CerebrasTask, GroqTask]}"
proof -
  from assms obtain t ts where ts: "first_done env = t # ts" "t \<notin> set ts" "distinct ts"
    by (cases "first_done env") (auto simp: race_wf_def)
  show ?thesis
  proof (cases ts)
    case Nil
    with ts show ?thesis by (cases t) auto
  next
    case (Cons u us)
    with ts have "us = []"
      by (cases us; cases t; cases u; cases "hd us") auto
    with ts Cons show ?thesis
      by (cases t; cases u) auto
  qed
qed

lemma race_wf_schedules:
  assumes "race_wf env"
  shows "(finish_order env = [GroqTask, CerebrasTask] \<and>
            first_done env \<in> {[GroqTask], [GroqTask, CerebrasTask], [CerebrasTask, GroqTask]}) \<or>
         (finish_order env = [CerebrasTask, GroqTask] \<and>
            first_done env \<in> {[CerebrasTask], [GroqTask, CerebrasTask], [CerebrasTask, GroqTask]})"
  using race_wf_cases[OF assms] assms by (auto simp: race_wf_def)

text \<open>
  Claim C2 says that the race returns the result of the first task that completes
  successfully. A tie shows otherwise. Both providers answer, Groq first; both tasks
  have finished when the first wait returns, and the loop visits the Cerebras task
  first. The first task that completed successfully is the Groq task, and the race
  returns the Cerebras completion.
\<close>

theorem race_ai_models_tie_returns_later_task:
  "race_wf \<lparr>groq_result = Inr (''fast answer'', ''groq''),
            cerebras_result = Inr (''slow answer'', ''cerebras''),
            finish_order = [GroqTask, CerebrasTask],
            first_done = [CerebrasTask, GroqTask]\<rparr> \<and>
   first_successful \<lparr>groq_result = Inr (''fast answer'', ''groq''),
            cerebras_result = Inr (''slow answer'', ''cerebras''),
            finish_order = [GroqTask, CerebrasTask],
            first_done = [CerebrasTask, GroqTask]\<rparr> = Some GroqTask \<and>
   task_result \<lparr>groq_result = Inr (''fast answer'', ''groq''),
            cerebras_result = Inr (''slow answer'', ''cerebras''),
            finish_order = [GroqTask, CerebrasTask],
            first_done = [CerebrasTask, GroqTask]\<rparr> GroqTask = Inr (''fast answer'', ''groq'') \<and>
   race_ai_models \<lparr>groq_result = Inr (''fast answer'', ''groq''),
            cerebras_result = Inr (''slow answer'', ''cerebras''),
            finish_order = [GroqTask, CerebrasTask],
            first_done = [CerebrasTask, GroqTask]\<rparr> = ([], Inr (''slow answer'', ''cerebras''))"
  by (auto simp: race_wf_def first_successful_def succeeded_def task_result_def race_ai_models_def)

text \<open>
  Claim C2, as the code has it. With a well-formed schedule the race returns the result
  of the first successful task in the order in which it visits the tasks: the first
  \<open>done\<close> set in the loop's order, then the task still pending. If a task of the first
  \<open>done\<close> set succeeded, the race returns the result of the first such task that the
  loop visits and cancels exactly the tasks still pending; if every task of the first
  \<open>done\<close> set failed, nothing is cancelled and the race returns the result of the
  remaining task when that succeeds. The race raises exactly when both entrants have
  failed. When one task only has finished at the first wait it is the task that
  finished first, and then the race returns the result of the first task that completes
  successfully.
\<close>

theorem race_ai_models_first_visited_success:
  assumes "race_wf env"
  shows "(\<forall>result. first_result env (first_done env) = Some result \<longrightarrow>
            race_ai_models env =
              (filter (\<lambda>t. t \<notin> set (first_done env)) [GroqTask, CerebrasTask], Inr result)) \<and>
         (first_result env (first_done env) = None \<longrightarrow>
            fst (race_ai_models env) = [] \<and>
            (\<forall>t. t \<notin> set (first_done env) \<longrightarrow>
               (\<forall>result. task_result env t = Inr result \<longrightarrow> snd (race_ai_models env) = Inr result))) \<and>
         (isl (snd (race_ai_models env)) = (isl (groq_result env) \<and> isl (cerebras_result env))) \<and>
         snd (race_ai_models env) =
           outcome_of env
             (find (succeeded env)
                (first_done env @ filter (\<lambda>t. t \<notin> set (first_done env)) [GroqTask, CerebrasTask])) \<and>
         fst (race_ai_models env) =
           (if list_ex (succeeded env) (first_done env)
            then filter (\<lambda>t. t \<notin> set (first_done env)) [GroqTask, CerebrasTask] else []) \<and>
         (length (first_done env) = 1 \<longrightarrow>
            first_done env = [hd (finish_order env)] \<and>
            snd (race_ai_models env) = outcome_of env (first_successful env))"
proof -
  from race_wf_schedules[OF assms] consider
      "finish_order env = [GroqTask, CerebrasTask]" "first_done env = [GroqTask]"
    | "finish_order env = [GroqTask, CerebrasTask]" "first_done env = [GroqTask, CerebrasTask]"
    | "finish_order env = [GroqTask, CerebrasTask]" "first_done env = [CerebrasTask, GroqTask]"
    | "finish_order env = [CerebrasTask, GroqTask]" "first_done env = [CerebrasTask]"
    | "finish_order env = [CerebrasTask, GroqTask]" "first_done env = [GroqTask, CerebrasTask]"
    | "finish_order env = [CerebrasTask, GroqTask]" "first_done env = [CerebrasTask, GroqTask]"
    by auto
  then show ?thesis
  proof cases
    case 1
    then show ?thesis
      by (cases "groq_result env"; cases "cerebras_result env")
         (auto simp: race_ai_models_def task_result_def succeeded_def first_successful_def
                     outcome_of_def split: task.splits)
  next
    case 2
    then show ?thesis
      by (cases "groq_result env"; cases "cerebras_result env")
         (auto simp: race_ai_models_def task_result_def succeeded_def first_successful_def
                     outcome_of_def split: task.splits)
  next
    case 3
    then show ?thesis
      by (cases "groq_result env"; cases "cerebras_result env")
         (auto simp: race_ai_models_def task_result_def succeeded_def first_successful_def
                     outcome_of_def split: task.splits)
  next
    case 4
    then show ?thesis
      by (cases "groq_result env"; cases "cerebras_result env")
         (auto simp: race_ai_models_def task_result_def succeeded_def first_successful_def
                     outcome_of_def split: task.splits)
  next
    case 5
    then show ?thesis
      by (cases "groq_result env"; cases "cerebras_result env")
         (auto simp: race_ai_models_def task_result_def succeeded_def first_successful_def
                     outcome_of_def split: task.splits)
  next
    case 6
    then show ?thesis
      by (cases "groq_result env"; cases "cerebras_result env")
         (auto simp: race_ai_models_def task_result_def succeeded_def first_successful_def
                     outcome_of_def split: task.splits)
  qed
qed

text \<open>
  Two runs without a tie. Groq answers first and wins, and the Cerebras task is
  cancelled; Groq fails first, and the race waits for Cerebras and returns its answer.
\<close>

theorem race_ai_models_first_visited_success_witness:
  "race_wf \<lparr>groq_result = Inr (''fast answer'', ''groq''),
            cerebras_result = Inr (''slow answer'', ''cerebras''),
            finish_order = [GroqTask, CerebrasTask],
            first_done = [GroqTask]\<rparr> \<and>
   race_ai_models \<lparr>groq_result = Inr (''fast answer'', ''groq''),
                   cerebras_result = Inr (''slow answer'', ''cerebras''),
                   finish_order = [GroqTask, CerebrasTask],
                   first_done = [GroqTask]\<rparr> = ([CerebrasTask], Inr (''fast answer'', ''groq'')) \<and>
   race_wf \<lparr>groq_result = Inl (Exception ''429''),
            cerebras_result = Inr (''slow answer'', ''cerebras''),
            finish_order = [GroqTask, CerebrasTask],
            first_done = [GroqTask]\<rparr> \<and>
   race_ai_models \<lparr>groq_result = Inl (Exception ''429''),
                   cerebras_result = Inr (''slow answer'', ''cerebras''),
                   finish_order = [GroqTask, CerebrasTask],
                   first_done = [GroqTask]\<rparr> = ([], Inr (''slow answer'', ''cerebras''))"
proof -
  let ?e1 = "\<lparr>groq_result = Inr (''fast answer'', ''groq''),
              cerebras_result = Inr (''slow answer'', ''cerebras''),
              finish_order = [GroqTask, CerebrasTask], first_done = [GroqTask]\<rparr>"
  let ?e2 = "\<lparr>groq_result = Inl (Exception ''429''),
              cerebras_result = Inr (''slow answer'', ''cerebras''),
              finish_order = [GroqTask, CerebrasTask], first_done = [GroqTask]\<rparr>"
  have wf: "race_wf ?e1" "race_wf ?e2"
    by (simp_all add: race_wf_def)
  have f1: "first_result ?e1 (first_done ?e1) = Some (''fast answer'', ''groq'')"
    by (simp add: task_result_def)
  have f2: "first_result ?e2 (first_done ?e2) = None"
       "length (first_done ?e2) = 1"
       "outcome_of ?e2 (first_successful ?e2) = Inr (''slow answer'', ''cerebras'')"
    by (simp_all add: task_result_def outcome_of_def first_successful_def succeeded_def)
  note r1 = race_ai_models_first_visited_success[OF wf(1)]
  note r2 = race_ai_models_first_visited_success[OF wf(2)]
  from r1 f1 have "race_ai_models ?e1 =
      (filter (\<lambda>t. t \<notin> set (first_done ?e1)) [GroqTask, CerebrasTask], Inr (''fast answer'', ''groq''))"
    by blast
  then have 1: "race_ai_models ?e1 = ([CerebrasTask], Inr (''fast answer'', ''groq''))"
    by simp
  from r2 f2(1) have "fst (race_ai_models ?e2) = []"
    by blast
  moreover from r2 f2(2) have "snd (race_ai_models ?e2) = outcome_of ?e2 (first_successful ?e2)"
    by blast
  ultimately have 2: "race_ai_models ?e2 = ([], Inr (''slow answer'', ''cerebras''))"
    using f2(3) by (simp add: prod_eq_iff)
  show ?thesis
    using wf 1 2 by simp
qed

section \<open>Answering a message\<close>

subsection \<open>Query expansion\<close>

definition relative_date_context :: "(string \<times> string) list" where
  "relative_date_context =
     [(''yesterday'', ''one day ago recent''),
      (''tomorrow'', ''upcoming future scheduled''),
      (''last week'', ''past week recent''),
      (''next week'', ''upcoming week future''),
      (''last month'', ''past month recent''),
      (''next month'', ''upcoming month future'')]"

definition expansions :: "(string \<times> string) list" where
  "expansions =
     [(''bitcoin'', ''bitcoin BTC current price USD live''),
      (''ethereum'', ''ethereum ETH current price USD live''),
      (''weather'', ''weather forecast current conditions''),
      (''news'', ''latest breaking news headlines''),
      (''stocks'', ''stock market indices live''),
      (''gold'', ''gold price per gram USD live''),
      (''silver'', ''silver price USD live''),
      (''sensex'', ''BSE sensex index live India''),
      (''nifty'', ''NSE nifty 50 live India''),
      (''crypto'', ''cryptocurrency market prices live''),
      (''time'', ''current time now live''),
      (''date'', ''current date today''),
      (''today'', ''today current date news'')]"

definition expand_query_for_search :: "string \<Rightarrow> string" where
  "expand_query_for_search query =
     (let query_lower = strip (lower query) in
      case find (\<lambda>(rel_date, context). contains query_lower rel_date) relative_date_context of
        Some (rel_date, context) \<Rightarrow> query @ '' '' @ context
      | None \<Rightarrow>
         (case map_of expansions query_lower of
            Some expanded \<Rightarrow> expanded
          | None \<Rightarrow>
              if any_in [''news'', ''happening'', ''going on'', ''update'', ''updates''] query_lower
                 \<and> \<not> contains query_lower ''latest''
              then ''latest '' @ query
              else query))"

subsection \<open>Sessions\<close>

text \<open>
  \<open>user_sessions\<close> maps a user id to a session dictionary. Of a session only the
  conversation history is modelled; the key is absent in a session loaded from disk,
  because \<open>save_user_data\<close> does not write it. A history is a list of turns, each with a
  role and a content.
\<close>

record turn =
  role :: string
  content :: string

record session =
  conversation_history :: "turn list option"

type_synonym sessions = "int \<Rightarrow> session option"

definition get_user_session :: "sessions \<Rightarrow> int \<Rightarrow> sessions" where
  \<comment> \<open>creates the session, or its history, when absent; the session returned is the entry
      of \<open>user_id\<close> in the result\<close>
  "get_user_session user_sessions user_id =
     (case user_sessions user_id of
        None \<Rightarrow> user_sessions(user_id \<mapsto> \<lparr>conversation_history = Some []\<rparr>)
      | Some s \<Rightarrow>
          (case conversation_history s of
             None \<Rightarrow> user_sessions(user_id \<mapsto> s\<lparr>conversation_history := Some []\<rparr>)
           | Some h \<Rightarrow> user_sessions))"

definition clear_user_history :: "sessions \<Rightarrow> int \<Rightarrow> bool \<times> sessions" where
  "clear_user_history user_sessions user_id =
     (case user_sessions user_id of
        Some s \<Rightarrow> (True, user_sessions(user_id \<mapsto> s\<lparr>conversation_history := Some []\<rparr>))
      | None \<Rightarrow> (False, user_sessions))"

definition history_of :: "sessions \<Rightarrow> int \<Rightarrow> turn list" where
  \<comment> \<open>\<open>session.get('conversation_history', [])\<close>\<close>
  "history_of user_sessions user_id =
     (case user_sessions user_id of
        None \<Rightarrow> []
      | Some s \<Rightarrow> (case conversation_history s of None \<Rightarrow> [] | Some h \<Rightarrow> h))"

definition set_history :: "sessions \<Rightarrow> int \<Rightarrow> turn list \<Rightarrow> sessions" where
  \<comment> \<open>\<open>session['conversation_history'] = conversation_history\<close>\<close>
  "set_history user_sessions user_id h =
     (case user_sessions user_id of
        None \<Rightarrow> user_sessions
      | Some s \<Rightarrow> user_sessions(user_id \<mapsto> s\<lparr>conversation_history := Some h\<rparr>))"

definition last_n :: "nat \<Rightarrow> 'a list \<Rightarrow> 'a list" where
  \<comment> \<open>the slice \<open>xs[-n:]\<close>; \<open>xs[-0:]\<close> is the whole list\<close>
  "last_n n xs = (if n = 0 then xs else drop (length xs - n) xs)"

subsection \<open>Event search\<close>

text \<open>
  Of an \<open>EventResult\<close> the display uses the title and the source, as the f-string
  renders them.
\<close>

record event =
  title :: string
  source :: string

function str_nat :: "nat \<Rightarrow> string" where
  \<comment> \<open>\<open>str(n)\<close> of a natural number\<close>
  "str_nat n =
     (if n < 10 then [''0123456789'' ! n]
      else str_nat (n div 10) @ [''0123456789'' ! (n mod 10)])"
  by pat_completeness auto
termination
  by (relation "measure id") auto

declare str_nat.simps [simp del]

fun numbered :: "nat \<Rightarrow> event list \<Rightarrow> string" where
  \<comment> \<open>\<open>for i, e in enumerate(events, i): out += f"{i}. {e.title} ({e.source})\n"\<close>\<close>
  "numbered i [] = []"
| "numbered i (e # es) =
     str_nat i @ ''. '' @ title e @ '' ('' @ source e @ '')'' @ [newline] @ numbered (Suc i) es"

definition format_events_for_display :: "event list \<Rightarrow> string" where
  "format_events_for_display events =
     (if events = [] then ''No events found.''
      else ''**Found '' @ str_nat (length events) @ '' Events:**'' @ [newline] @ numbered 1 events)"

subsection \<open>The answer\<close>

text \<open>
  What the awaited calls of one run of \<open>get_llama_response\<close> yield is given by the
  environment: the event search, the search resolver and the generation race, each
  either raising or returning. The prompt sent to the providers (system prompt, history,
  search context, length and format instructions) is not modelled; the two calls of that
  part which are not modelled elsewhere, \<open>get_system_prompt_with_timestamp\<close> and
  \<open>SmartFormatSelector.get_format_instruction\<close>, appear with their position in the body,
  and of their outcome only whether it is an exception matters. \<^typ>\<open>exn\<close> stands for
  the exceptions that \<open>except Exception\<close> catches.
\<close>

record awaited =
  get_system_prompt_with_timestamp :: "exn + string"
  await_discover_events :: "string \<Rightarrow> exn + event list"
  await_smart_search :: "string \<Rightarrow> exn + search_result"
  get_format_instruction :: "string \<Rightarrow> exn + string"
  await_race_ai_models :: "exn + completion"

definition cross_mark :: string where
  \<comment> \<open>U+274C in UTF-8\<close>
  "cross_mark = [CHR 0xE2, CHR 0x9D, CHR 0x8C]"

definition both_failed_message :: string where
  "both_failed_message =
     cross_mark @ '' Error connecting to AI Service. Both Groq and Cerebras failed.''"

definition unexpected_error_message :: string where
  "unexpected_error_message =
     cross_mark @ '' Sorry, an unexpected error occurred while processing your request. Please try again!''"

definition event_keywords :: "string list" where
  "event_keywords = [''event'', ''meetup'', ''conference'', ''workshop'', ''seminar'', ''webinar'']"

definition events_search :: "awaited \<Rightarrow> string \<Rightarrow> string option" where
  \<comment> \<open>the block of the event search; an exception in it is logged and search goes on\<close>
  "events_search w user_query =
     (let is_event_query = any_in event_keywords (lower user_query) in
      if is_event_query then
        (case await_discover_events w user_query of
           Inl e \<Rightarrow> None
         | Inr event_results \<Rightarrow>
             if event_results \<noteq> []
             then Some (''EVENTS FOUND:'' @ [newline] @ format_events_for_display event_results)
             else None)
      else None)"

definition truncate_context :: "string \<Rightarrow> string" where
  "truncate_context search_results =
     (let max_context_chars = 3000 in
      if length search_results > max_context_chars
      then take max_context_chars search_results @ [newline] @ ''... [truncated for accuracy]''
      else search_results)"

definition search_block :: "config \<Rightarrow> awaited \<Rightarrow> string \<Rightarrow> IntentType option \<Rightarrow> exn + string option" where
  \<comment> \<open>the value of \<open>search_results\<close> after the search part of the body, or the exception
      that left it\<close>
  "search_block cfg w user_query intent =
     (if should_search cfg user_query intent then
        let expanded_query = expand_query_for_search user_query;
            search_results = events_search w user_query
        in case (if \<not> truthy search_results
                 then (case await_smart_search w expanded_query of
                         Inl e \<Rightarrow> Inl e
                       | Inr (results, search_sources) \<Rightarrow> Inr results)
                 else Inr search_results) of
             Inl e \<Rightarrow> Inl e
           | Inr search_results \<Rightarrow>
               if truthy search_results then Inr (map_option truncate_context search_results)
               else Inr search_results
      else Inr None)"

definition history_entry :: "string option \<Rightarrow> string \<Rightarrow> string \<Rightarrow> turn list" where
  \<comment> \<open>the two turns appended after a successful generation\<close>
  "history_entry search_results user_query response_text =
     (if truthy search_results then
        [\<lparr>role = ''user'', content = ''[Search query: '' @ user_query @ '']''\<rparr>,
         \<lparr>role = ''assistant'', content = ''[Answered with real-time search data]''\<rparr>]
      else
        [\<lparr>role = ''user'', content = user_query\<rparr>,
         \<lparr>role = ''assistant'', content = response_text\<rparr>])"

definition prune :: "config \<Rightarrow> turn list \<Rightarrow> turn list" where
  \<comment> \<open>\<open>if len(h) > MAX_HISTORY * 2: h = h[-(MAX_HISTORY * 2):]\<close>\<close>
  "prune cfg history =
     (if length history > MAX_HISTORY cfg * 2
      then last_n (MAX_HISTORY cfg * 2) history
      else history)"

definition llama_body ::
    "config \<Rightarrow> awaited \<Rightarrow> sessions \<Rightarrow> string \<Rightarrow> int \<Rightarrow> IntentType option \<Rightarrow> (exn + string) \<times> sessions" where
  \<comment> \<open>the body of the outer \<open>try\<close>: the string returned or the exception raised, and the
      sessions as the body leaves them. The session of \<open>get_user_session\<close> is a non-empty
      dictionary, so the branch \<open>if not session\<close> is never taken.\<close>
  "llama_body cfg w user_sessions user_content user_id intent =
     (let sessions1 = get_user_session user_sessions user_id;
          history = history_of sessions1 user_id
      in case get_system_prompt_with_timestamp w of
           Inl e \<Rightarrow> (Inl e, sessions1)
         | Inr system_prompt \<Rightarrow>
            (let sessions2 =
                   (if length history > MAX_HISTORY cfg * 2
                    then set_history sessions1 user_id (prune cfg history)
                    else sessions1);
                 history = prune cfg history;
                 user_query = user_content
             in case search_block cfg w user_query intent of
                  Inl e \<Rightarrow> (Inl e, sessions2)
                | Inr search_results \<Rightarrow>
                   (case get_format_instruction w user_query of
                      Inl e \<Rightarrow> (Inl e, sessions2)
                    | Inr format_instruction \<Rightarrow>
                       (case await_race_ai_models w of
                          Inl e \<Rightarrow> (Inr both_failed_message, sessions2)
                        | Inr (response_text, provider) \<Rightarrow>
                            (Inr (validate_and_clean_response response_text user_query),
                             set_history sessions2 user_id
                               (history @
                                history_entry search_results user_query response_text))))))"

definition get_llama_response ::
    "config \<Rightarrow> awaited \<Rightarrow> sessions \<Rightarrow> string \<Rightarrow> int \<Rightarrow> IntentType option \<Rightarrow> (exn + string) \<times> sessions" where
  \<comment> \<open>\<open>try: body except Exception: return the apology\<close>\<close>
  "get_llama_response cfg w user_sessions user_content user_id intent =
     (case llama_body cfg w user_sessions user_content user_id intent of
        (Inl e, sessions') \<Rightarrow> (Inr unexpected_error_message, sessions')
      | (Inr response, sessions') \<Rightarrow> (Inr response, sessions'))"

definition awaited_of :: "config \<Rightarrow> backends \<Rightarrow> (string \<Rightarrow> exn + event list) \<Rightarrow> race_env \<Rightarrow> awaited" where
  \<comment> \<open>the environment of a run in which the search resolver and the race are the
      functions modelled above\<close>
  "awaited_of cfg b events renv =
     \<lparr>get_system_prompt_with_timestamp = Inr [],
      await_discover_events = events,
      await_smart_search = (\<lambda>query. Inr (snd (smart_search cfg b query))),
      get_format_instruction = (\<lambda>query. Inr []),
      await_race_ai_models = snd (race_ai_models renv)\<rparr>"

subsection \<open>The history after a call\<close>

lemma history_get_user_session:
  "history_of (get_user_session user_sessions user_id) u = history_of user_sessions u"
  by (auto simp: history_of_def get_user_session_def split: option.splits)

lemma get_user_session_present: "get_user_session user_sessions user_id user_id \<noteq> None"
  by (auto simp: get_user_session_def split: option.splits)

lemma history_set_history:
  "user_sessions user_id \<noteq> None \<Longrightarrow>
     history_of (set_history user_sessions user_id h) u =
       (if u = user_id then h else history_of user_sessions u)"
  by (auto simp: history_of_def set_history_def split: option.splits)

lemma prune_idem: "prune cfg (prune cfg h) = prune cfg h"
  by (auto simp: prune_def last_n_def)

definition appended :: "config \<Rightarrow> awaited \<Rightarrow> string \<Rightarrow> IntentType option \<Rightarrow> turn list option" where
  \<comment> \<open>the turns that a run appends to the history, if it gets that far\<close>
  "appended cfg w user_query intent =
     (case search_block cfg w user_query intent of
        Inl e \<Rightarrow> None
      | Inr search_results \<Rightarrow>
         (case get_format_instruction w user_query of
            Inl e \<Rightarrow> None
          | Inr format_instruction \<Rightarrow>
             (case await_race_ai_models w of
                Inl e \<Rightarrow> None
              | Inr (response_text, provider) \<Rightarrow>
                  Some (history_entry search_results user_query response_text))))"

lemma get_llama_response_history:
  "history_of (snd (get_llama_response cfg w user_sessions user_content user_id intent)) u =
     (if u \<noteq> user_id then history_of user_sessions u
      else case get_system_prompt_with_timestamp w of
             Inl e \<Rightarrow> history_of user_sessions user_id
           | Inr system_prompt \<Rightarrow>
               (case appended cfg w user_content intent of
                  None \<Rightarrow> prune cfg (history_of user_sessions user_id)
                | Some entry \<Rightarrow> prune cfg (history_of user_sessions user_id) @ entry))"
proof -
  let ?s1 = "get_user_session user_sessions user_id"
  let ?h = "history_of user_sessions user_id"
  have p1: "?s1 user_id \<noteq> None"
    by (rule get_user_session_present)
  have p2: "set_history ?s1 user_id y user_id \<noteq> None" for y
    using p1 by (auto simp: set_history_def split: option.splits)
  have h1: "history_of ?s1 u = history_of user_sessions u" for u
    by (rule history_get_user_session)
  have h2: "history_of (set_history ?s1 user_id x) u =
              (if u = user_id then x else history_of user_sessions u)" for x u
    by (simp add: history_set_history[of ?s1 user_id, OF p1] h1)
  have h3: "history_of (set_history (set_history ?s1 user_id y) user_id x) u =
              (if u = user_id then x else history_of user_sessions u)" for x y u
    by (simp add: history_set_history[of "set_history ?s1 user_id y" user_id, OF p2] h2)
  have h4: "\<not> MAX_HISTORY cfg * 2 < length ?h \<Longrightarrow> prune cfg ?h = ?h"
    by (simp add: prune_def)
  show ?thesis
  proof (cases "get_system_prompt_with_timestamp w")
    case (Inl e)
    then show ?thesis
      by (simp add: get_llama_response_def llama_body_def Let_def h1)
  next
    case sys: (Inr system_prompt)
    show ?thesis
    proof (cases "search_block cfg w user_content intent")
      case (Inl e)
      with sys show ?thesis
        by (simp add: get_llama_response_def llama_body_def Let_def h1 h2 h3 h4 appended_def)
    next
      case sb: (Inr search_results)
      show ?thesis
      proof (cases "get_format_instruction w user_content")
        case (Inl e)
        with sys sb show ?thesis
          by (simp add: get_llama_response_def llama_body_def Let_def h1 h2 h3 h4 appended_def)
      next
        case fi: (Inr format_instruction)
        show ?thesis
        proof (cases "await_race_ai_models w")
          case (Inl e)
          with sys sb fi show ?thesis
            by (simp add: get_llama_response_def llama_body_def Let_def h1 h2 h3 h4 appended_def)
        next
          case (Inr completion)
          obtain response_text provider where c: "completion = (response_text, provider)"
            by (cases completion)
          with sys sb fi Inr show ?thesis
            by (simp add: get_llama_response_def llama_body_def Let_def h1 h2 h3 h4 appended_def)
        qed
      qed
    qed
  qed
qed

lemma get_llama_response_reply:
  "fst (get_llama_response cfg w user_sessions user_content user_id intent) =
     Inr (case get_system_prompt_with_timestamp w of
            Inl e \<Rightarrow> unexpected_error_message
          | Inr system_prompt \<Rightarrow>
             (case search_block cfg w user_content intent of
                Inl e \<Rightarrow> unexpected_error_message
              | Inr search_results \<Rightarrow>
                 (case get_format_instruction w user_content of
                    Inl e \<Rightarrow> unexpected_error_message
                  | Inr format_instruction \<Rightarrow>
                     (case await_race_ai_models w of
                        Inl e \<Rightarrow> both_failed_message
                      | Inr (response_text, provider) \<Rightarrow>
                          validate_and_clean_response response_text user_content))))"
  by (simp add: get_llama_response_def llama_body_def Let_def split: sum.splits prod.splits)

lemma appended_length: "appended cfg w user_query intent = Some entry \<Longrightarrow> length entry = 2"
  by (auto simp: appended_def history_entry_def split: sum.splits prod.splits if_splits)

lemma prune_length:
  "0 < MAX_HISTORY cfg \<Longrightarrow> length (prune cfg h) \<le> 2 * MAX_HISTORY cfg"
  by (auto simp: prune_def last_n_def)

lemma prune_even: "even (length h) \<Longrightarrow> even (length (prune cfg h))"
  by (auto simp: prune_def last_n_def)

text \<open>
  The operations that change a history, and what holds of every history after any
  sequence of them: its length is even and at most two more than \<open>2 * MAX_HISTORY\<close>.
\<close>

datatype operation =
  Ask awaited string int "IntentType option"
| Clear int

fun perform :: "config \<Rightarrow> sessions \<Rightarrow> operation \<Rightarrow> sessions" where
  "perform cfg user_sessions (Ask w user_content user_id intent) =
     snd (get_llama_response cfg w user_sessions user_content user_id intent)"
| "perform cfg user_sessions (Clear user_id) = snd (clear_user_history user_sessions user_id)"

definition bounded_even :: "config \<Rightarrow> turn list \<Rightarrow> bool" where
  "bounded_even cfg h = (even (length h) \<and> length h \<le> 2 * MAX_HISTORY cfg + 2)"

lemma history_clear_user_history:
  "history_of (snd (clear_user_history user_sessions user_id)) u =
     (if u = user_id then [] else history_of user_sessions u)"
  by (auto simp: clear_user_history_def history_of_def split: option.splits)

lemma perform_bounded_even:
  assumes "0 < MAX_HISTORY cfg" and "bounded_even cfg (history_of user_sessions u)"
  shows "bounded_even cfg (history_of (perform cfg user_sessions operation) u)"
proof (cases operation)
  case (Ask w user_content user_id intent)
  have p: "bounded_even cfg (prune cfg (history_of user_sessions u))"
    using assms prune_length[OF assms(1), of "history_of user_sessions u"]
          prune_even[of "history_of user_sessions u" cfg]
    by (simp add: bounded_even_def)
  have a: "bounded_even cfg (prune cfg (history_of user_sessions u) @ entry)"
    if "appended cfg w user_content intent = Some entry" for entry
    using appended_length[OF that] prune_length[OF assms(1), of "history_of user_sessions u"]
          prune_even[of "history_of user_sessions u" cfg] assms(2)
    by (simp add: bounded_even_def)
  show ?thesis
    using Ask assms(2) p a
    by (auto simp: get_llama_response_history split: sum.splits option.splits)
next
  case (Clear user_id)
  then show ?thesis
    using assms(2) by (simp add: history_clear_user_history bounded_even_def)
qed

lemma history_bounded_even:
  assumes "0 < MAX_HISTORY cfg" and "\<forall>u. bounded_even cfg (history_of user_sessions u)"
  shows "\<forall>u. bounded_even cfg (history_of (foldl (perform cfg) user_sessions operations) u)"
  using assms(2)
proof (induction operations arbitrary: user_sessions)
  case Nil
  then show ?case by simp
next
  case (Cons operation operations)
  have "\<forall>u. bounded_even cfg (history_of (perform cfg user_sessions operation) u)"
    using perform_bounded_even[OF assms(1)] Cons.prems by blast
  then show ?case
    using Cons.IH by simp
qed

definition no_sessions :: sessions where
  \<comment> \<open>\<open>user_sessions\<close> when no user has written yet\<close>
  "no_sessions = (\<lambda>user_id. None)"

definition chatty :: awaited where
  \<comment> \<open>a run in which nothing raises and Groq answers\<close>
  "chatty =
     \<lparr>get_system_prompt_with_timestamp = Inr ''You are a helpful assistant.'',
      await_discover_events = (\<lambda>query. Inr []),
      await_smart_search = (\<lambda>query. Inr (None, [])),
      get_format_instruction = (\<lambda>query. Inr ''Use short paragraphs.''),
      await_race_ai_models = Inr (''Hello! How can I help you today?'', ''groq'')\<rparr>"

text \<open>
  Claim C1 bounds the history by \<open>2 * MAX_HISTORY\<close> after every mutation. The body prunes
  before it appends, so the history it leaves can be two entries longer: from no
  session, eleven answered messages of one user leave 22 entries where
  \<open>2 * MAX_HISTORY\<close> is 20. (The length is always even, and never above
  \<open>2 * MAX_HISTORY + 2\<close>: lemma \<open>history_bounded_even\<close>.)
\<close>

theorem get_llama_response_history_exceeds_bound:
  "length (history_of
     (foldl (perform (module_config None None)) no_sessions
        (replicate 11 (Ask chatty ''hello'' 7 (Some GREETING)))) 7) = 22 \<and>
   2 * MAX_HISTORY (module_config None None) = 20"
proof -
  let ?cfg = "module_config None None"
  have a: "appended ?cfg chatty ''hello'' (Some GREETING) =
             Some [\<lparr>role = ''user'', content = ''hello''\<rparr>,
                   \<lparr>role = ''assistant'', content = ''Hello! How can I help you today?''\<rparr>]"
    by code_simp
  have s: "get_system_prompt_with_timestamp chatty = Inr ''You are a helpful assistant.''"
    by (simp add: chatty_def)
  have m: "MAX_HISTORY ?cfg = 10"
    by (simp add: module_config_def)
  have step: "length (history_of (perform ?cfg user_sessions (Ask chatty ''hello'' 7 (Some GREETING))) 7) =
                min (length (history_of user_sessions 7)) 20 + 2" for user_sessions
    by (simp add: get_llama_response_history a s prune_def last_n_def m)
  have 0: "length (history_of no_sessions 7) = 0"
    by (simp add: no_sessions_def history_of_def)
  have "length (history_of
     (foldl (perform ?cfg) no_sessions (replicate 11 (Ask chatty ''hello'' 7 (Some GREETING)))) 7) = 22"
    by (simp add: eval_nat_numeral step 0 del: perform.simps)
  with m show ?thesis
    by simp
qed

text \<open>
  Claim C5. When the search part of the body ends with a non-empty text and the
  generation succeeds, the history of the user after the call is the pruned history
  followed by exactly two turns: the user turn \<open>[Search query: q]\<close> with the query the
  function was called with, and the assistant turn
  \<open>[Answered with real-time search data]\<close>. Neither turn is built from the search text or
  from the answer.
\<close>

theorem get_llama_response_redacts_search:
  assumes "\<not> isl (get_system_prompt_with_timestamp w)"
    and "search_block cfg w user_content intent = Inr (Some search_results)"
    and "search_results \<noteq> []"
    and "\<not> isl (get_format_instruction w user_content)"
    and "await_race_ai_models w = Inr (response_text, provider)"
  shows "history_of (snd (get_llama_response cfg w user_sessions user_content user_id intent)) user_id =
           prune cfg (history_of user_sessions user_id) @
           [\<lparr>role = ''user'', content = ''[Search query: '' @ user_content @ '']''\<rparr>,
            \<lparr>role = ''assistant'', content = ''[Answered with real-time search data]''\<rparr>]"
proof -
  from assms(1) obtain system_prompt where s: "get_system_prompt_with_timestamp w = Inr system_prompt"
    by (cases "get_system_prompt_with_timestamp w") auto
  from assms(4) obtain format_instruction where
    f: "get_format_instruction w user_content = Inr format_instruction"
    by (cases "get_format_instruction w user_content") auto
  have "appended cfg w user_content intent =
          Some [\<lparr>role = ''user'', content = ''[Search query: '' @ user_content @ '']''\<rparr>,
                \<lparr>role = ''assistant'', content = ''[Answered with real-time search data]''\<rparr>]"
    using assms(2,3,5) f by (simp add: appended_def history_entry_def truthy_def)
  with s show ?thesis
    by (simp add: get_llama_response_history)
qed

text \<open>
  A question answered from the full DuckDuckGo search, with Groq answering first.
\<close>

definition searching :: awaited where
  "searching =
     awaited_of (module_config (Some ''key'') (Some ''key''))
       (stub_backends (Inr None) (Inr (Some instant_text)))
       (\<lambda>query. Inr [])
       \<lparr>groq_result = Inr (''Python is a programming language.'', ''groq''),
        cerebras_result = Inl (Exception ''timeout''),
        finish_order = [GroqTask, CerebrasTask],
        first_done = [GroqTask]\<rparr>"

theorem get_llama_response_redacts_search_witness:
  "search_block (module_config (Some ''key'') (Some ''key'')) searching ''what is python''
     (Some INFO_QUESTION) = Inr (Some instant_text) \<and>
   history_of (snd (get_llama_response (module_config (Some ''key'') (Some ''key'')) searching
                      no_sessions ''what is python'' 7 (Some INFO_QUESTION))) 7 =
     [\<lparr>role = ''user'', content = ''[Search query: what is python]''\<rparr>,
      \<lparr>role = ''assistant'', content = ''[Answered with real-time search data]''\<rparr>]"
proof -
  let ?cfg = "module_config (Some ''key'') (Some ''key'')"
  have 1: "\<not> isl (get_system_prompt_with_timestamp searching)"
    by (simp add: searching_def awaited_of_def)
  have 2: "search_block ?cfg searching ''what is python'' (Some INFO_QUESTION) = Inr (Some instant_text)"
    by code_simp
  have 3: "instant_text \<noteq> []"
    by (simp add: instant_text_def)
  have 4: "\<not> isl (get_format_instruction searching ''what is python'')"
    by (simp add: searching_def awaited_of_def)
  have 5: "await_race_ai_models searching = Inr (''Python is a programming language.'', ''groq'')"
    by code_simp
  have 6: "prune ?cfg (history_of no_sessions 7) = []"
    by (simp add: no_sessions_def history_of_def prune_def)
  show ?thesis
    using get_llama_response_redacts_search[OF 1 2 3 4 5, of no_sessions 7] 2 6
    by simp
qed

lemma first_result_all_failed:
  "isl (groq_result env) \<Longrightarrow> isl (cerebras_result env) \<Longrightarrow> first_result env ts = None"
proof (induction ts)
  case Nil
  then show ?case by simp
next
  case (Cons t ts)
  then show ?case
    by (cases t; cases "groq_result env"; cases "cerebras_result env")
       (auto simp: task_result_def)
qed

lemma race_ai_models_all_failed:
  "isl (groq_result env) \<Longrightarrow> isl (cerebras_result env) \<Longrightarrow> isl (snd (race_ai_models env))"
  by (simp add: race_ai_models_def Let_def first_result_all_failed)

lemma search_block_awaited_of: "\<not> isl (search_block cfg (awaited_of cfg' b events renv) user_query intent)"
  by (auto simp: search_block_def awaited_of_def Let_def split: prod.splits)

text \<open>
  Claim C7. \<open>get_llama_response\<close> always returns a string. If the body gets to the race
  and the race raises, the string is the message that both Groq and Cerebras failed; the
  race raises when both providers failed. If an exception leaves the body anywhere else,
  the string is the apology for an unexpected error.
\<close>

theorem get_llama_response_never_raises:
  "\<not> isl (fst (get_llama_response cfg w user_sessions user_content user_id intent)) \<and>
   (\<not> isl (get_system_prompt_with_timestamp w) \<and> \<not> isl (search_block cfg w user_content intent) \<and>
    \<not> isl (get_format_instruction w user_content) \<and> isl (await_race_ai_models w) \<longrightarrow>
      fst (get_llama_response cfg w user_sessions user_content user_id intent) =
        Inr both_failed_message) \<and>
   (isl (get_system_prompt_with_timestamp w) \<or> isl (search_block cfg w user_content intent) \<or>
    isl (get_format_instruction w user_content) \<longrightarrow>
      fst (get_llama_response cfg w user_sessions user_content user_id intent) =
        Inr unexpected_error_message) \<and>
   (isl (groq_result renv) \<and> isl (cerebras_result renv) \<longrightarrow>
      fst (get_llama_response cfg (awaited_of cfg b events renv) user_sessions user_content
             user_id intent) = Inr both_failed_message) \<and>
   contains both_failed_message ''Both Groq and Cerebras failed''"
proof (intro conjI impI)
  show "\<not> isl (fst (get_llama_response cfg w user_sessions user_content user_id intent))"
    by (simp add: get_llama_response_reply)
  show "fst (get_llama_response cfg w user_sessions user_content user_id intent) =
          Inr both_failed_message"
    if "\<not> isl (get_system_prompt_with_timestamp w) \<and> \<not> isl (search_block cfg w user_content intent) \<and>
        \<not> isl (get_format_instruction w user_content) \<and> isl (await_race_ai_models w)"
    using that
    by (cases "get_system_prompt_with_timestamp w"; cases "search_block cfg w user_content intent";
        cases "get_format_instruction w user_content"; cases "await_race_ai_models w")
       (simp_all add: get_llama_response_reply)
  show "fst (get_llama_response cfg w user_sessions user_content user_id intent) =
          Inr unexpected_error_message"
    if "isl (get_system_prompt_with_timestamp w) \<or> isl (search_block cfg w user_content intent) \<or>
        isl (get_format_instruction w user_content)"
    using that
    by (cases "get_system_prompt_with_timestamp w"; cases "search_block cfg w user_content intent";
        cases "get_format_instruction w user_content")
       (simp_all add: get_llama_response_reply)
  show "fst (get_llama_response cfg (awaited_of cfg b events renv) user_sessions user_content
               user_id intent) = Inr both_failed_message"
    if "isl (groq_result renv) \<and> isl (cerebras_result renv)"
  proof -
    let ?w = "awaited_of cfg b events renv"
    have r: "isl (await_race_ai_models ?w)"
      using that race_ai_models_all_failed[of renv] by (simp add: awaited_of_def)
    have s: "\<not> isl (search_block cfg ?w user_content intent)"
      by (rule search_block_awaited_of)
    have o: "get_system_prompt_with_timestamp ?w = Inr []" "get_format_instruction ?w user_content = Inr []"
      by (simp_all add: awaited_of_def)
    show ?thesis
      using r s o
      by (cases "search_block cfg ?w user_content intent"; cases "await_race_ai_models ?w")
         (simp_all add: get_llama_response_reply)
  qed
  show "contains both_failed_message ''Both Groq and Cerebras failed''"
    by code_simp
qed

text \<open>
  A run in which both providers fail, and a run in which the search raises.
\<close>

definition exhausted :: awaited where
  "exhausted =
     awaited_of (module_config None None)
       (stub_backends (Inr None) (Inr None))
       (\<lambda>query. Inr [])
       \<lparr>groq_result = Inl (Exception ''Groq API Error 500''),
        cerebras_result = Inl (Exception ''Cerebras timeout''),
        finish_order = [CerebrasTask, GroqTask],
        first_done = [CerebrasTask]\<rparr>"

definition broken_search :: awaited where
  "broken_search = chatty\<lparr>await_smart_search := (\<lambda>query. Inl (Exception ''connection reset''))\<rparr>"

theorem get_llama_response_never_raises_witness:
  "fst (get_llama_response (module_config None None) exhausted no_sessions ''tell me a joke'' 7
          (Some GENERAL_TASK)) = Inr both_failed_message \<and>
   isl (search_block (module_config None None) broken_search ''tell me a joke'' (Some GENERAL_TASK)) \<and>
   fst (get_llama_response (module_config None None) broken_search no_sessions ''tell me a joke'' 7
          (Some GENERAL_TASK)) = Inr unexpected_error_message"
proof -
  let ?cfg = "module_config None None"
  let ?renv = "\<lparr>groq_result = Inl (Exception ''Groq API Error 500''),
                cerebras_result = Inl (Exception ''Cerebras timeout''),
                finish_order = [CerebrasTask, GroqTask],
                first_done = [CerebrasTask]\<rparr>"
  have 1: "isl (groq_result ?renv) \<and> isl (cerebras_result ?renv)"
    by simp
  have 2: "isl (search_block ?cfg broken_search ''tell me a joke'' (Some GENERAL_TASK))"
    by code_simp
  have "fst (get_llama_response ?cfg exhausted no_sessions ''tell me a joke'' 7 (Some GENERAL_TASK)) =
          Inr both_failed_message"
    using get_llama_response_never_raises[of ?cfg _ no_sessions "''tell me a joke''" 7
            "Some GENERAL_TASK" ?renv "stub_backends (Inr None) (Inr None)" "\<lambda>query. Inr []"] 1
    unfolding exhausted_def by blast
  moreover have "fst (get_llama_response ?cfg broken_search no_sessions ''tell me a joke'' 7
                        (Some GENERAL_TASK)) = Inr unexpected_error_message"
    using get_llama_response_never_raises[of ?cfg broken_search no_sessions "''tell me a joke''" 7
            "Some GENERAL_TASK"] 2
    by blast
  ultimately show ?thesis
    using 2 by simp
qed

end
